theory Spec2Isabelle
  imports Main "HOL-Library.Sublist" "HOL-Library.Word"
begin

unbundle bit_operations_syntax

section \<open>JavaScript values and strings\<close>

text \<open>
  The sources are the two classes of the image loading helper: \<^verbatim>\<open>image-loader.js\<close>
  (class \<^verbatim>\<open>ImageLoader\<close>, the revision that keeps the list \<^verbatim>\<open>loadedImageList\<close>) and
  \<^verbatim>\<open>image-element-shell.js\<close> (class \<^verbatim>\<open>ImageElementShell\<close>, the revision with the
  fields \<^verbatim>\<open>_animationing\<close> and \<^verbatim>\<open>_placeholderNode\<close>).

  A JavaScript string is modelled as a \<^typ>\<open>string\<close>: a list of code units, here
  restricted to the 8-bit range. A field that starts as \<^verbatim>\<open>undefined\<close> and may be
  set to \<^verbatim>\<open>null\<close> has the type \<open>'a js\<close>.
\<close>

datatype 'a js = Undefined | Null | Val 'a

text \<open>Truthiness of a field holding an object, a boolean and a string.\<close>

fun truthy_obj :: "'a js \<Rightarrow> bool" where
  "truthy_obj (Val _) = True"
| "truthy_obj _ = False"

fun truthy_bool :: "bool js \<Rightarrow> bool" where
  "truthy_bool (Val b) = b"
| "truthy_bool _ = False"

definition truthy_str :: "string \<Rightarrow> bool" where
  "truthy_str s \<longleftrightarrow> s \<noteq> []"

text \<open>
  The line terminators, which the dot of a regular expression does not match
  (U+2028 and U+2029 are outside the 8-bit range).
\<close>

definition is_line_terminator :: "char \<Rightarrow> bool" where
  "is_line_terminator c \<longleftrightarrow> c = CHR 0x0A \<or> c = CHR 0x0D"

text \<open>The character class \<^verbatim>\<open>[a-zA-Z\d]\<close>.\<close>

definition is_alnum :: "char \<Rightarrow> bool" where
  "is_alnum c \<longleftrightarrow>
     (let n = (of_char c :: nat)
      in (97 \<le> n \<and> n \<le> 122) \<or> (65 \<le> n \<and> n \<le> 90) \<or> (48 \<le> n \<and> n \<le> 57))"

text \<open>
  \<^verbatim>\<open>toLocaleLowerCase\<close> in a locale without special casing rules: the upper case
  letters of ASCII and of Latin-1 move 32 code points up.
\<close>

definition is_upper :: "char \<Rightarrow> bool" where
  "is_upper c \<longleftrightarrow>
     (let n = (of_char c :: nat)
      in (65 \<le> n \<and> n \<le> 90) \<or> (192 \<le> n \<and> n \<le> 222 \<and> n \<noteq> 215))"

definition to_lower :: "char \<Rightarrow> char" where
  "to_lower c = (if is_upper c then char_of (of_char c + (32::nat)) else c)"

definition toLocaleLowerCase :: "string \<Rightarrow> string" where
  "toLocaleLowerCase s = map to_lower s"

section \<open>image-loader.js: the private helpers\<close>

subsection \<open>The regular expressions\<close>

text \<open>
  \<^verbatim>\<open>const BASE64_REG = /data:(.*);base64,/\<close>

  \<open>greedy_until m s\<close> is the greedy \<^verbatim>\<open>(.*)\<close> followed by the literal \<open>m\<close>, matched at
  the start of \<open>s\<close>: the longest prefix of \<open>s\<close> without a line terminator that is
  followed by \<open>m\<close>. \<open>match_BASE64_REG s\<close> is \<^verbatim>\<open>s.match(BASE64_REG)\<close>: \<open>None\<close> for
  \<^verbatim>\<open>null\<close>, and otherwise the capture group \<^verbatim>\<open>matched[1]\<close> of the leftmost match.
\<close>

fun greedy_until :: "string \<Rightarrow> string \<Rightarrow> string option" where
  "greedy_until m [] = (if m = [] then Some [] else None)"
| "greedy_until m (c # cs) =
     (case (if is_line_terminator c then None else greedy_until m cs) of
        Some p \<Rightarrow> Some (c # p)
      | None \<Rightarrow> if prefix m (c # cs) then Some [] else None)"

fun match_BASE64_REG :: "string \<Rightarrow> string option" where
  "match_BASE64_REG [] = None"
| "match_BASE64_REG (c # cs) =
     (if prefix ''data:'' (c # cs) then
        (case greedy_until '';base64,'' (drop 5 (c # cs)) of
           Some p \<Rightarrow> Some p
         | None \<Rightarrow> match_BASE64_REG cs)
      else match_BASE64_REG cs)"

text \<open>
  \<^verbatim>\<open>s.replace(/image\/(.*)/, '$1')\<close>: the leftmost \<^verbatim>\<open>image/\<close> and the rest of its line
  (the capture) are replaced by the capture; what follows the line stays.
\<close>

fun replace_image_REG :: "string \<Rightarrow> string" where
  "replace_image_REG [] = []"
| "replace_image_REG (c # cs) =
     (if prefix ''image/'' (c # cs) then
        (let r = drop 6 (c # cs)
         in takeWhile (\<lambda>x. \<not> is_line_terminator x) r @ dropWhile (\<lambda>x. \<not> is_line_terminator x) r)
      else c # replace_image_REG cs)"

text \<open>
  \<^verbatim>\<open>s.replace(/.*\.([a-zA-Z\d]+).*/, '$1')\<close>. On one line the greedy \<^verbatim>\<open>.*\<close> finds the
  last dot that a letter or a digit follows (\<open>last_ext\<close>), the capture is the longest
  run of letters and digits after it, and the whole line is replaced by the capture.
  The match is in the first line that has such a dot; without one the string stays.
\<close>

fun last_ext :: "string \<Rightarrow> string option" where
  "last_ext [] = None"
| "last_ext (c # cs) =
     (case last_ext cs of
        Some e \<Rightarrow> Some e
      | None \<Rightarrow>
          if c = CHR ''.'' \<and> (case cs of [] \<Rightarrow> False | d # _ \<Rightarrow> is_alnum d)
          then Some (takeWhile is_alnum cs) else None)"

function replace_EXT_REG :: "string \<Rightarrow> string" where
  "replace_EXT_REG s =
     (let line = takeWhile (\<lambda>c. \<not> is_line_terminator c) s;
          rest = dropWhile (\<lambda>c. \<not> is_line_terminator c) s
      in case last_ext line of
           Some e \<Rightarrow> e @ rest
         | None \<Rightarrow> (case rest of [] \<Rightarrow> line | t # rest' \<Rightarrow> line @ t # replace_EXT_REG rest'))"
  by pat_completeness auto
termination
proof (relation "measure length")
  show "wf (measure length)" by simp
next
  fix s :: string and line rest :: string and t :: char and rest' :: string
  assume "rest = dropWhile (\<lambda>c. \<not> is_line_terminator c) s" and "rest = t # rest'"
  then have "length (t # rest') \<le> length s"
    by (metis length_dropWhile_le)
  then show "(rest', s) \<in> measure length" by simp
qed

subsection \<open>getExtension and getMimeType\<close>

text \<open>
  \<^verbatim>\<open>
  getExtension(imageSrc) {
    const matched = imageSrc.match(BASE64_REG)
    let EXT_REG
    if (matched) {
      EXT_REG = /image\/(.*)/
      imageSrc = matched[1]
    } else {
      EXT_REG = /.*\.([a-zA-Z\d]+).*/
    }
    return imageSrc.replace(EXT_REG, '$1').toLocaleLowerCase()
  }
  \<close>
\<close>

definition getExtension :: "string \<Rightarrow> string" where
  "getExtension imageSrc =
     (case match_BASE64_REG imageSrc of
        Some m \<Rightarrow> toLocaleLowerCase (replace_image_REG m)
      | None \<Rightarrow> toLocaleLowerCase (replace_EXT_REG imageSrc))"

text \<open>
  \<^verbatim>\<open>
  getMimeType(ext) {
    const MIME_TYPE = { jpg: 'image/jpeg', jepg: 'image/jpeg', png: 'image/png', webp: 'image/webp' }
    return MIME_TYPE[ext]
  }
  \<close>
  \<^verbatim>\<open>MIME_TYPE\<close> is an object literal, so \<^verbatim>\<open>MIME_TYPE[ext]\<close> reads an own property first
  and then the properties inherited from \<^verbatim>\<open>Object.prototype\<close>: its methods (values that
  are functions) and the accessor \<^verbatim>\<open>__proto__\<close> (the prototype object). Only a key
  found in neither gives \<^verbatim>\<open>undefined\<close>.
\<close>

datatype js_value = JSUndefined | JSString string | JSFunction string | JSObject string

definition MIME_TYPE :: "(string \<times> string) list" where
  "MIME_TYPE =
     [(''jpg'', ''image/jpeg''), (''jepg'', ''image/jpeg''),
      (''png'', ''image/png''), (''webp'', ''image/webp'')]"

definition Object_prototype :: "(string \<times> js_value) list" where
  "Object_prototype =
     [(''constructor'', JSFunction ''Object''),
      (''hasOwnProperty'', JSFunction ''hasOwnProperty''),
      (''isPrototypeOf'', JSFunction ''isPrototypeOf''),
      (''propertyIsEnumerable'', JSFunction ''propertyIsEnumerable''),
      (''toLocaleString'', JSFunction ''toLocaleString''),
      (''toString'', JSFunction ''toString''),
      (''valueOf'', JSFunction ''valueOf''),
      (''__defineGetter__'', JSFunction ''__defineGetter__''),
      (''__defineSetter__'', JSFunction ''__defineSetter__''),
      (''__lookupGetter__'', JSFunction ''__lookupGetter__''),
      (''__lookupSetter__'', JSFunction ''__lookupSetter__''),
      (''__proto__'', JSObject ''Object.prototype'')]"

definition getMimeType :: "string \<Rightarrow> js_value" where
  "getMimeType ext =
     (case map_of MIME_TYPE ext of
        Some m \<Rightarrow> JSString m
      | None \<Rightarrow> (case map_of Object_prototype ext of Some v \<Rightarrow> v | None \<Rightarrow> JSUndefined))"

section \<open>image-loader.js: the class ImageLoader\<close>

subsection \<open>State\<close>

text \<open>
  The instance fields \<^verbatim>\<open>$image\<close>, \<^verbatim>\<open>$blob\<close>, \<^verbatim>\<open>_currentSrc\<close>, \<^verbatim>\<open>_status\<close> and
  \<^verbatim>\<open>_loaded\<close>, all \<^verbatim>\<open>undefined\<close> in a new instance. The module level list
  \<^verbatim>\<open>loadedImageList\<close> is shared by all instances and is passed along with the instance.
\<close>

datatype status = Success | Fail

record image =
  image_src :: string
  image_width :: "nat js"
  image_height :: "nat js"

record blob =
  blob_type :: string
  blob_size :: nat

record ImageLoader =
  l_image :: "image js"
  l_blob :: "blob js"
  l_currentSrc :: "string js"
  l_status :: "status js"
  l_loaded :: "bool js"

definition new_ImageLoader :: ImageLoader where
  "new_ImageLoader =
     \<lparr>l_image = Undefined, l_blob = Undefined, l_currentSrc = Undefined,
      l_status = Undefined, l_loaded = Undefined\<rparr>"

text \<open>
  A promise is pending, resolved with a value or rejected with a reason; once settled
  it stays as it is, whatever \<^verbatim>\<open>resolve\<close> or \<^verbatim>\<open>reject\<close> is called later.
\<close>

datatype error =
    NotLoaded              \<comment> \<open>the message rejected by \<^verbatim>\<open>base64\<close> without image and blob\<close>
  | TypeError
  | InvalidCharacterError  \<comment> \<open>thrown by \<^verbatim>\<open>atob\<close>\<close>
  | CanvasError            \<comment> \<open>thrown by the canvas (\<^verbatim>\<open>drawImage\<close>, \<^verbatim>\<open>toDataURL\<close>)\<close>
  | ImageFailed            \<comment> \<open>the image fired \<^verbatim>\<open>error\<close>\<close>
  | EmitFailed             \<comment> \<open>the promise of \<^verbatim>\<open>emit\<close> was rejected\<close>
  | XhrBadStatus nat nat   \<comment> \<open>the request loaded with this readyState and status\<close>
  | XhrTransport           \<comment> \<open>the request fired \<^verbatim>\<open>error\<close>\<close>

datatype 'a promise = Pending | Resolved 'a | Rejected error

fun settle :: "'a promise \<Rightarrow> 'a promise \<Rightarrow> 'a promise" where
  "settle Pending q = q"
| "settle p q = p"

text \<open>\<^verbatim>\<open>isSameResource(self, imageSrc) { return imageSrc === self.$currentSrc }\<close>\<close>

definition isSameResource :: "ImageLoader \<Rightarrow> string \<Rightarrow> bool" where
  "isSameResource self imageSrc \<longleftrightarrow> Val imageSrc = l_currentSrc self"

subsection \<open>load\<close>

text \<open>
  \<^verbatim>\<open>
  load(imageSrc = '', width, height) {
    return new Promise((resolve, reject) => {
      if (!_actions.isSameResource(this, imageSrc)) { this.$blob = null }
      this._currentSrc = imageSrc
      this.$image = new Image(width, height)
      this.$image.addEventListener('load', () => {
        this._status = 'success'
        if (loadedImageList.indexOf(this.$currentSrc) >= 0) {
          this._loaded = true
        } else {
          this._loaded = false
          loadedImageList.push(this.$currentSrc)
        }
        this.emit('load').then((result) => { resolve(result) }).catch((err) => { reject(err) })
      })
      this.$image.addEventListener('error', () => {
        this._status = 'fail'
        this.emit('error').then((result) => { reject(result) }).catch((err) => { reject(err) })
      })
      this.$image.src = imageSrc
    })
  }
  \<close>
  The call runs \<open>load_executor\<close> at once. Later the browser fires \<^verbatim>\<open>load\<close> or \<^verbatim>\<open>error\<close>
  on the image, which runs \<open>load_listener\<close> or \<open>error_listener\<close>; both read the
  instance as it is at that moment. \<^verbatim>\<open>emit\<close> belongs to the base class \<^verbatim>\<open>EventQueues\<close>,
  a package outside the repository: whether its promise resolves is an input of the
  listeners (\<open>emit_ok\<close>).
\<close>

definition load_executor :: "string \<Rightarrow> nat js \<Rightarrow> nat js \<Rightarrow> ImageLoader \<Rightarrow> ImageLoader" where
  "load_executor imageSrc width height self =
     (let self1 = (if \<not> isSameResource self imageSrc then self\<lparr>l_blob := Null\<rparr> else self)
      in self1\<lparr>l_currentSrc := Val imageSrc,
               l_image := Val \<lparr>image_src = imageSrc, image_width = width, image_height = height\<rparr>\<rparr>)"

definition load_listener ::
  "bool \<Rightarrow> ImageLoader \<times> string js list \<Rightarrow> unit promise \<times> ImageLoader \<times> string js list" where
  "load_listener emit_ok = (\<lambda>(self, loadedImageList).
     (let self1 = self\<lparr>l_status := Val Success\<rparr>;
          p = (if emit_ok then Resolved () else Rejected EmitFailed)
      in if l_currentSrc self1 \<in> set loadedImageList
         then (p, self1\<lparr>l_loaded := Val True\<rparr>, loadedImageList)
         else (p, self1\<lparr>l_loaded := Val False\<rparr>, loadedImageList @ [l_currentSrc self1])))"

definition error_listener ::
  "bool \<Rightarrow> ImageLoader \<times> string js list \<Rightarrow> unit promise \<times> ImageLoader \<times> string js list" where
  "error_listener emit_ok = (\<lambda>(self, loadedImageList).
     (if emit_ok then Rejected ImageFailed else Rejected EmitFailed,
      self\<lparr>l_status := Val Fail\<rparr>, loadedImageList))"

text \<open>
  One call of \<^verbatim>\<open>load\<close> on an instance that no other call touches before its image
  fires: the event the browser fires on the image (\<open>None\<close>: none so far) decides the
  promise.
\<close>

datatype image_event = ImageLoad | ImageError

definition load ::
  "string \<Rightarrow> nat js \<Rightarrow> nat js \<Rightarrow> image_event option \<Rightarrow> bool \<Rightarrow>
   ImageLoader \<times> string js list \<Rightarrow> unit promise \<times> ImageLoader \<times> string js list" where
  "load imageSrc width height ev emit_ok = (\<lambda>(self, loadedImageList).
     (let self1 = load_executor imageSrc width height self
      in case ev of
           None \<Rightarrow> (Pending, self1, loadedImageList)
         | Some ImageLoad \<Rightarrow> load_listener emit_ok (self1, loadedImageList)
         | Some ImageError \<Rightarrow> error_listener emit_ok (self1, loadedImageList)))"

subsection \<open>Several calls on one instance\<close>

text \<open>
  Every call of \<^verbatim>\<open>load\<close> runs the executor at once and creates an image of its own; the
  images fire later, in any order, and each listener reads \<^verbatim>\<open>this.$currentSrc\<close> as the
  latest call has left it. \<open>lw_pending\<close> holds the sources of the calls whose image has
  not fired, in the order of the calls. \<open>lw_settled\<close> records, for each image that has
  fired, the source of its call, how the promise of that call settled, and \<^verbatim>\<open>$loaded\<close>
  at that moment. The last component of \<open>ImageEvent\<close> tells whether the promise of
  \<^verbatim>\<open>emit\<close> resolves.
\<close>

record loader_world =
  lw_self :: ImageLoader
  lw_loadedImageList :: "string js list"
  lw_pending :: "string list"
  lw_settled :: "(string \<times> unit promise \<times> bool js) list"

datatype loader_event = CallLoad string | ImageEvent nat image_event bool

fun loader_step :: "loader_world \<Rightarrow> loader_event \<Rightarrow> loader_world" where
  "loader_step w (CallLoad src) =
     w\<lparr>lw_self := load_executor src Undefined Undefined (lw_self w),
       lw_pending := lw_pending w @ [src]\<rparr>"
| "loader_step w (ImageEvent k ev emit_ok) =
     (if k < length (lw_pending w) then
        (case (case ev of ImageLoad \<Rightarrow> load_listener emit_ok | ImageError \<Rightarrow> error_listener emit_ok)
                (lw_self w, lw_loadedImageList w) of
           (p, self1, list1) \<Rightarrow>
             w\<lparr>lw_self := self1, lw_loadedImageList := list1,
               lw_pending := take k (lw_pending w) @ drop (Suc k) (lw_pending w),
               lw_settled := lw_settled w @ [(lw_pending w ! k, p, l_loaded self1)]\<rparr>)
      else w)"



subsection \<open>ajax and dataURLToBlob\<close>

text \<open>
  \<^verbatim>\<open>
  xhr.addEventListener('load', () => {
    if (xhr.readyState !== 4 | xhr.status !== 200) { return reject(xhr) }
    resolve(xhr)
  })
  xhr.addEventListener('error', (err) => { reject(err) })
  \<close>
  The operator \<^verbatim>\<open>|\<close> is the bitwise or of the two comparisons, converted to 32-bit
  integers. No listener is registered for \<^verbatim>\<open>abort\<close> or \<^verbatim>\<open>timeout\<close>.
\<close>

datatype xhr_event = XhrLoad nat nat blob | XhrError

definition ajax :: "xhr_event \<Rightarrow> blob promise" where
  "ajax ev =
     (case ev of
        XhrLoad readyState xstatus response \<Rightarrow>
          if ((of_bool (readyState \<noteq> 4) :: 32 word) OR of_bool (xstatus \<noteq> 200)) \<noteq> 0
          then Rejected (XhrBadStatus readyState xstatus)
          else Resolved response
      | XhrError \<Rightarrow> Rejected XhrTransport)"

text \<open>
  \<^verbatim>\<open>
  dataURLToBlob(dataURL) {
    const arr = dataURL.split(',')
    const blobStr = atob(arr[1])
    let bLen = blobStr.length
    const u8arr = new Uint8Array(bLen)
    while (bLen--) { u8arr[bLen] = blobStr.charCodeAt(bLen) }
    const mime = arr[0].match(/:(.*?);/)[1]
    return new Blob([u8arr], { type: mime })
  }
  \<close>
  \<open>atob\<close> follows the forgiving base64 decoding of the browser as far as the code
  depends on it: whether it throws, and how many bytes it returns (the loop copies
  them one by one into the array, whose length is the size of the blob).
\<close>

fun split_comma :: "string \<Rightarrow> string list" where
  "split_comma [] = [[]]"
| "split_comma (c # cs) =
     (if c = CHR '','' then [] # split_comma cs
      else (case split_comma cs of [] \<Rightarrow> [[c]] | x # xs \<Rightarrow> (c # x) # xs))"

definition is_ascii_whitespace :: "char \<Rightarrow> bool" where
  "is_ascii_whitespace c \<longleftrightarrow>
     c = CHR 0x09 \<or> c = CHR 0x0A \<or> c = CHR 0x0C \<or> c = CHR 0x0D \<or> c = CHR 0x20"

definition is_base64_char :: "char \<Rightarrow> bool" where
  "is_base64_char c \<longleftrightarrow> is_alnum c \<or> c = CHR ''+'' \<or> c = CHR ''/''"

definition strip_padding :: "string \<Rightarrow> string" where
  "strip_padding s =
     (if length s mod 4 = 0 then
        (if 2 \<le> length s \<and> drop (length s - 2) s = ''=='' then take (length s - 2) s
         else if 1 \<le> length s \<and> drop (length s - 1) s = ''='' then take (length s - 1) s
         else s)
      else s)"

definition atob :: "string \<Rightarrow> error + nat" where
  "atob s =
     (let d = strip_padding (filter (\<lambda>c. \<not> is_ascii_whitespace c) s)
      in if length d mod 4 = 1 \<or> \<not> list_all is_base64_char d then Inl InvalidCharacterError
         else Inr (length d * 6 div 8))"

text \<open>
  \<^verbatim>\<open>arr[0].match(/:(.*?);/)\<close>: the leftmost colon that a semicolon follows on the same
  line; the lazy capture stops at the first such semicolon.
\<close>

fun lazy_until_semicolon :: "string \<Rightarrow> string option" where
  "lazy_until_semicolon [] = None"
| "lazy_until_semicolon (c # cs) =
     (if c = CHR '';'' then Some []
      else if is_line_terminator c then None
      else map_option ((#) c) (lazy_until_semicolon cs))"

fun match_mime_REG :: "string \<Rightarrow> string option" where
  "match_mime_REG [] = None"
| "match_mime_REG (c # cs) =
     (if c = CHR '':'' then
        (case lazy_until_semicolon cs of Some p \<Rightarrow> Some p | None \<Rightarrow> match_mime_REG cs)
      else match_mime_REG cs)"

definition dataURLToBlob :: "string \<Rightarrow> error + blob" where
  "dataURLToBlob dataURL =
     (let arr = split_comma dataURL
      in case atob (if 1 < length arr then arr ! 1 else ''undefined'') of
           Inl e \<Rightarrow> Inl e
         | Inr bLen \<Rightarrow>
             (case match_mime_REG (arr ! 0) of
                None \<Rightarrow> Inl TypeError
              | Some mime \<Rightarrow> Inr \<lparr>blob_type = mime, blob_size = bLen\<rparr>))"

subsection \<open>fetch\<close>

text \<open>
  \<^verbatim>\<open>
  fetch(imageSrc = '') {
    return new Promise((resolve, reject) => {
      if (!_actions.isSameResource(this, imageSrc)) { this.$image = null }
      this._currentSrc = imageSrc
      const matched = imageSrc.match(BASE64_REG)
      if (matched) {
        this.$blob = _actions.dataURLToBlob(imageSrc)
        return this.load(imageSrc).then((result) => { resolve(result) })
                                  .catch((err) => { reject(err) })
      }
      return _actions.ajax(imageSrc, 'get', 'blob').then((result) => {
        this.$blob = result.response
        this.load(imageSrc).then((loadResult) => { resolve(loadResult) })
                           .catch((err) => { reject(err) })
      }).catch((err) => { reject(err) })
    })
  }
  \<close>
  An exception thrown in the executor (by \<^verbatim>\<open>dataURLToBlob\<close>) rejects the promise.
  The events of the request and of the image (\<open>None\<close>: none so far) are inputs.
\<close>

definition fetch ::
  "string \<Rightarrow> xhr_event option \<Rightarrow> image_event option \<Rightarrow> bool \<Rightarrow>
   ImageLoader \<times> string js list \<Rightarrow> unit promise \<times> ImageLoader \<times> string js list" where
  "fetch imageSrc xhr ev emit_ok = (\<lambda>(self, loadedImageList).
     (let self1 = (if \<not> isSameResource self imageSrc then self\<lparr>l_image := Null\<rparr> else self);
          self2 = self1\<lparr>l_currentSrc := Val imageSrc\<rparr>
      in case match_BASE64_REG imageSrc of
           Some matched \<Rightarrow>
             (case dataURLToBlob imageSrc of
                Inl e \<Rightarrow> (Rejected e, self2, loadedImageList)
              | Inr b \<Rightarrow>
                  load imageSrc Undefined Undefined ev emit_ok
                    (self2\<lparr>l_blob := Val b\<rparr>, loadedImageList))
         | None \<Rightarrow>
             (case xhr of
                None \<Rightarrow> (Pending, self2, loadedImageList)
              | Some x \<Rightarrow>
                  (case ajax x of
                     Resolved response \<Rightarrow>
                       load imageSrc Undefined Undefined ev emit_ok
                         (self2\<lparr>l_blob := Val response\<rparr>, loadedImageList)
                   | Rejected e \<Rightarrow> (Rejected e, self2, loadedImageList)
                   | Pending \<Rightarrow> (Pending, self2, loadedImageList)))))"

subsection \<open>canvasToDataURL and base64\<close>

text \<open>
  \<^verbatim>\<open>
  get $ext() { return this.$image && _actions.getExtension(this.$currentSrc) }

  canvasToDataURL(self, image, format) {
    let canvas = document.createElement('CANVAS')
    canvas.width = self.$naturalWidth
    canvas.height = self.$naturalHeight
    const context = canvas.getContext('2d')
    context.drawImage(image, 0, 0)
    const mimeType = format ? _actions.getMimeType(format) : _actions.getMimeType(self.$ext)
    return canvas.toDataURL(mimeType)
  }
  \<close>
  \<open>canvas_mimeType\<close> is the argument computed for \<^verbatim>\<open>toDataURL\<close>. Without a truthy
  \<open>format\<close> the key is \<^verbatim>\<open>self.$ext\<close>: the extension of the current source, or the falsy
  \<^verbatim>\<open>$image\<close> itself, which as a property key reads \<^verbatim>\<open>'undefined'\<close> or \<^verbatim>\<open>'null'\<close>.
  What the canvas draws and exports is the browser's: the function \<open>canvas\<close> gives the
  result of \<^verbatim>\<open>drawImage\<close> and \<^verbatim>\<open>toDataURL\<close> for an image and a mime argument.
  \<^verbatim>\<open>drawImage\<close> throws a \<^verbatim>\<open>TypeError\<close> for an argument that is no image.
\<close>

definition canvas_mimeType :: "ImageLoader \<Rightarrow> string option \<Rightarrow> error + js_value" where
  "canvas_mimeType self format =
     (case format of
        Some f \<Rightarrow>
          if truthy_str f then Inr (getMimeType f)
          else (case l_image self of
                  Val _ \<Rightarrow> (case l_currentSrc self of
                               Val src \<Rightarrow> Inr (getMimeType (getExtension src))
                             | _ \<Rightarrow> Inl TypeError)
                | Undefined \<Rightarrow> Inr (getMimeType ''undefined'')
                | Null \<Rightarrow> Inr (getMimeType ''null''))
      | None \<Rightarrow>
          (case l_image self of
             Val _ \<Rightarrow> (case l_currentSrc self of
                          Val src \<Rightarrow> Inr (getMimeType (getExtension src))
                        | _ \<Rightarrow> Inl TypeError)
           | Undefined \<Rightarrow> Inr (getMimeType ''undefined'')
           | Null \<Rightarrow> Inr (getMimeType ''null'')))"

definition canvasToDataURL ::
  "(image \<Rightarrow> js_value \<Rightarrow> error + string) \<Rightarrow> ImageLoader \<Rightarrow> image js \<Rightarrow> string option \<Rightarrow>
   error + string" where
  "canvasToDataURL canvas self img format =
     (case img of
        Val i \<Rightarrow>
          (case canvas_mimeType self format of
             Inl e \<Rightarrow> Inl e
           | Inr mimeType \<Rightarrow> canvas i mimeType)
      | _ \<Rightarrow> Inl TypeError)"

text \<open>
  \<^verbatim>\<open>
  base64(format) {
    return new Promise((resolve, reject) => {
      if (!this.$blob && !this.$image) {
        reject('image resource does not load! please use once (ImageLoader#load) or (ImageLoader#fetch) method.')
      }
      const matched = this.$currentSrc.match(BASE64_REG)
      if (matched) { return resolve(this.$currentSrc) }
      return resolve(_actions.canvasToDataURL(this, this.$image, format))
    })
  }
  \<close>
  The first \<^verbatim>\<open>reject\<close> does not return: the executor goes on, and what it resolves or
  throws later no longer changes the promise. The second component of the result
  tells whether a canvas was created.
\<close>

definition base64 ::
  "(image \<Rightarrow> js_value \<Rightarrow> error + string) \<Rightarrow> string option \<Rightarrow> ImageLoader \<Rightarrow>
   string promise \<times> bool" where
  "base64 canvas format self =
     (let p = (if \<not> truthy_obj (l_blob self) \<and> \<not> truthy_obj (l_image self)
               then Rejected NotLoaded else Pending)
      in case l_currentSrc self of
           Val src \<Rightarrow>
             (case match_BASE64_REG src of
                Some matched \<Rightarrow> (settle p (Resolved src), False)
              | None \<Rightarrow>
                  (case canvasToDataURL canvas self (l_image self) format of
                     Inr url \<Rightarrow> (settle p (Resolved url), True)
                   | Inl e \<Rightarrow> (settle p (Rejected e), True)))
         | _ \<Rightarrow> (settle p (Rejected TypeError), False))"

section \<open>image-element-shell.js: the class ImageElementShell\<close>

subsection \<open>State\<close>

text \<open>
  The element \<^verbatim>\<open>$el\<close>, as far as the class reads and writes it: whether it is an
  \<^verbatim>\<open>IMG\<close>, its attributes \<^verbatim>\<open>src\<close> and \<^verbatim>\<open>class\<close>, and of its style the background
  image and the text.
\<close>

record element =
  nodeName_IMG :: bool
  attr_src :: "string js"
  attr_class :: "string js"
  style_backgroundImage :: "string js"
  style_cssText :: string

text \<open>
  \<^verbatim>\<open>$options\<close>: the defaults of \<^verbatim>\<open>ImageElementShell.options\<close> overridden by the caller's.
  A string that the caller leaves out is the empty string here.
\<close>

record options =
  o_el :: element
  o_width :: string
  o_height :: string
  o_originSrc :: string
  o_originClassName :: string
  o_placeholder :: string
  o_loadingPlaceholder :: string
  o_loadingDelay :: nat
  o_animationClassName :: string
  o_animate :: bool
  o_force :: bool

text \<open>The callbacks that \<^verbatim>\<open>startAnimationing\<close> passes to \<^verbatim>\<open>requestAnimationFrame\<close>.\<close>

datatype frame_callback = Enter | EnterActive

text \<open>
  The instance with what it owns in the browser:
  \<^item> the fields of the instance (\<open>s_\<close>), the loader among them;
  \<^item> \<open>el\<close>, the element; \<open>loadedImageList\<close>, the list of the loader's module;
  \<^item> \<open>timer\<close>: the delay of the timeout that \<^verbatim>\<open>_loadingTimeouter\<close> names, while it is
    pending;
  \<^item> \<open>frame_queue\<close>: the callbacks waiting for the next animation frame;
  \<^item> \<open>listener\<close>: whether \<^verbatim>\<open>animationEndHandler\<close> is registered on the element;
  \<^item> \<open>images\<close>: the images of the loader that have not fired yet, each with its
    source and with whether \<^verbatim>\<open>ImageElementShell.load\<close> waits for its promise;
  \<^item> \<open>containers\<close>: the wrapper containers of this instance in the document, and
    how many were \<open>created\<close> and \<open>removed\<close> so far;
  \<^item> \<open>load_calls\<close>: the sources passed to \<^verbatim>\<open>_imageLoader.load\<close>, in order;
  \<^item> \<open>results\<close>: the promises that \<^verbatim>\<open>ImageElementShell.load\<close> returned and that are
    settled, with their sources.
\<close>

record world =
  s_options :: options
  s_imageLoader :: ImageLoader
  s_currentSrc :: "string js"
  s_actualSrc :: "string js"
  s_loaded :: "bool js"
  s_canAnimate :: "bool js"
  s_animationing :: "bool js"
  s_parentNode :: "unit js"
  s_placeholderNode :: "unit js"
  s_loadingTimeouter :: "nat js"
  s_originClassNameList :: "string list"
  el :: element
  loadedImageList :: "string js list"
  timer :: "nat option"
  frame_queue :: "frame_callback list"
  listener :: bool
  images :: "(string \<times> bool) list"
  containers :: nat
  created :: nat
  removed :: nat
  load_calls :: "string list"
  results :: "(string \<times> unit promise) list"

definition TRANSPARENT_PLACEHOLDER_IMAGE :: string where
  "TRANSPARENT_PLACEHOLDER_IMAGE =
     ''data:image/png;base64,iVBORw0KGgoAAAANSUhEUgAAAAEAAAABCAYAAAAfFcSJAAAACXBIWXMAAAsTAAALEwEAmpwYAAAAGXRFWHRTb2Z0d2FyZQBBZG9iZSBJbWFnZVJlYWR5ccllPAAAABBJREFUeNpi/P//PwNAgAEACQEC/2m8kPAAAAAASUVORK5CYII=''"

subsection \<open>Strings of the class attribute\<close>

text \<open>\<^verbatim>\<open>s.split(' ')\<close>, \<^verbatim>\<open>list.join(' ')\<close> and \<^verbatim>\<open>s.trim()\<close>.\<close>

fun split_space :: "string \<Rightarrow> string list" where
  "split_space [] = [[]]"
| "split_space (c # cs) =
     (if c = CHR '' '' then [] # split_space cs
      else (case split_space cs of [] \<Rightarrow> [[c]] | x # xs \<Rightarrow> (c # x) # xs))"

fun join_space :: "string list \<Rightarrow> string" where
  "join_space [] = []"
| "join_space [x] = x"
| "join_space (x # y # ys) = x @ CHR '' '' # join_space (y # ys)"

definition is_white_space :: "char \<Rightarrow> bool" where
  "is_white_space c \<longleftrightarrow>
     c = CHR 0x09 \<or> c = CHR 0x0A \<or> c = CHR 0x0B \<or> c = CHR 0x0C \<or> c = CHR 0x0D \<or>
     c = CHR 0x20 \<or> c = CHR 0xA0"

definition trim :: "string \<Rightarrow> string" where
  "trim s = rev (dropWhile is_white_space (rev (dropWhile is_white_space s)))"

text \<open>A string field used as a string: \<^verbatim>\<open>undefined\<close> and \<^verbatim>\<open>null\<close> are converted.\<close>

fun to_string :: "string js \<Rightarrow> string" where
  "to_string (Val s) = s"
| "to_string Undefined = ''undefined''"
| "to_string Null = ''null''"

subsection \<open>The private helpers\<close>

text \<open>
  \<^verbatim>\<open>
  setImageSrc(el, imageSrc) {
    el.nodeName === 'IMG' ? el.setAttribute('src', imageSrc)
                          : el.style.backgroundImage = 'url("' + imageSrc + '")'
  }
  \<close>
\<close>

definition setImageSrc :: "element \<Rightarrow> string js \<Rightarrow> element" where
  "setImageSrc e imageSrc =
     (if nodeName_IMG e then e\<lparr>attr_src := Val (to_string imageSrc)\<rparr>
      else e\<lparr>style_backgroundImage := Val (''url('' @ [CHR 0x22] @ to_string imageSrc @ [CHR 0x22] @ '')'')\<rparr>)"

text \<open>
  \<^verbatim>\<open>
  setClientSize(self) {
    if (!self.$width || !self.$height) { return }
    self.$el.setAttribute('style', self.$el.style.cssText + `width:${self.$width}; height:${self.$height};`)
  }
  \<close>
\<close>

definition setClientSize :: "world \<Rightarrow> world" where
  "setClientSize self =
     (if \<not> truthy_str (o_width (s_options self)) \<or> \<not> truthy_str (o_height (s_options self))
      then self
      else self\<lparr>el := (el self)\<lparr>style_cssText :=
             style_cssText (el self) @ ''width:'' @ o_width (s_options self) @
             ''; height:'' @ o_height (s_options self) @ '';''\<rparr>\<rparr>)"

text \<open>
  \<^verbatim>\<open>
  setClassName(self, classname) {
    self.$el.setAttribute('class', [...self._originClassNameList, classname].join(' ').trim())
  }
  \<close>
\<close>

definition className :: "world \<Rightarrow> string \<Rightarrow> string" where
  "className self classname = trim (join_space (s_originClassNameList self @ [classname]))"

definition setClassName :: "world \<Rightarrow> string \<Rightarrow> world" where
  "setClassName self classname =
     self\<lparr>el := (el self)\<lparr>attr_class := Val (className self classname)\<rparr>\<rparr>"

text \<open>
  \<^verbatim>\<open>createContainerDom\<close> creates the placeholder node and the container, stores them
  in \<^verbatim>\<open>_placeholderNode\<close> and \<^verbatim>\<open>_parentNode\<close>, moves the element into the container,
  inserts the container in the document and appends to the style of the element.
  The styles copied to the container and the background of its child are not
  modelled: nothing reads them.
\<close>

definition createContainerDom :: "world \<Rightarrow> world" where
  "createContainerDom self =
     self\<lparr>s_placeholderNode := Val (),
          s_parentNode := Val (),
          containers := containers self + 1,
          created := created self + 1,
          el := (el self)\<lparr>style_cssText :=
                  style_cssText (el self) @ ''; position:relative; z-index:1''\<rparr>\<rparr>"

text \<open>
  \<^verbatim>\<open>
  removeContainerDom(self) {
    if (!self._parentNode || !self._placeholderNode || self._animationing) { return }
    _actions.insertAfter(self.$el, self._parentNode)
    self._parentNode.parentElement.removeChild(self._parentNode)
    self._placeholderNode.parentElement.removeChild(self._placeholderNode)
    self._parentNode = null
    self._placeholderNode = null
  }
  \<close>
\<close>

definition removeContainerDom :: "world \<Rightarrow> world" where
  "removeContainerDom self =
     (if \<not> truthy_obj (s_parentNode self) \<or> \<not> truthy_obj (s_placeholderNode self) \<or>
         truthy_bool (s_animationing self)
      then self
      else self\<lparr>containers := containers self - 1,
                removed := removed self + 1,
                s_parentNode := Null,
                s_placeholderNode := Null\<rparr>)"

text \<open>
  \<^verbatim>\<open>
  setAnimationEndHandler(self) {
    if (!self.$animate || !self.$animationClassName) { return }
    removeAnimationEnd(self.$el, animationEndHandler)
    const animationEndHandler = function () {
      self._animationing = false
      self._loaded = true
      _actions.setClassName(self, self.$animationClassName + '-enter-end')
      removeAnimationEnd(self.$el, animationEndHandler)
      _actions.removeContainerDom(self)
    }
    addAnimationEnd(self.$el, animationEndHandler)
  }
  \<close>
  The first call of \<^verbatim>\<open>removeAnimationEnd\<close> names the handler before its declaration. The
  class is written with class fields and is compiled before it runs; in the compiled
  code the name is a hoisted variable, still \<^verbatim>\<open>undefined\<close> at that call, and the call
  removes nothing.
\<close>

text \<open>
  Modelled from the spec: \<^verbatim>\<open>addAnimationEnd\<close> and \<^verbatim>\<open>removeAnimationEnd\<close> are imported
  from \<^verbatim>\<open>./utils/animation-handler\<close>, which is not among the sources. The spec has the
  class rely on the browser's animation-end event to apply \<^verbatim>\<open><name>-enter-end\<close>; the two
  helpers register and unregister the handler for that event on the element, as their
  names and the comments at their calls say (``bind the animation end event'',
  ``remove the bound event after the animation has ended'').
\<close>

definition addAnimationEnd :: "world \<Rightarrow> world" where
  "addAnimationEnd self = self\<lparr>listener := True\<rparr>"

definition removeAnimationEnd :: "world \<Rightarrow> world" where
  "removeAnimationEnd self = self\<lparr>listener := False\<rparr>"

definition animationEndHandler :: "world \<Rightarrow> world" where
  "animationEndHandler self =
     (let self1 = self\<lparr>s_animationing := Val False, s_loaded := Val True\<rparr>;
          self2 = setClassName self1 (o_animationClassName (s_options self1) @ ''-enter-end'');
          self3 = removeAnimationEnd self2
      in removeContainerDom self3)"

definition setAnimationEndHandler :: "world \<Rightarrow> world" where
  "setAnimationEndHandler self =
     (if \<not> o_animate (s_options self) \<or> \<not> truthy_str (o_animationClassName (s_options self))
      then self
      else addAnimationEnd self)"

text \<open>\<^verbatim>\<open>clearTimeout(self._loadingTimeouter)\<close>\<close>

definition clearTimeout :: "world \<Rightarrow> world" where
  "clearTimeout self = self\<lparr>timer := None\<rparr>"

text \<open>
  \<^verbatim>\<open>
  successHandler(self) {
    return function () {
      clearTimeout(self._loadingTimeouter)
      _actions.removeContainerDom(self)
      _actions.setImageSrc(self.$el, self.$currentSrc)
    }
  }
  \<close>
\<close>

definition successHandler :: "world \<Rightarrow> world" where
  "successHandler self =
     (let self1 = removeContainerDom (clearTimeout self)
      in self1\<lparr>el := setImageSrc (el self1) (s_currentSrc self1)\<rparr>)"

text \<open>
  The call \<^verbatim>\<open>this._imageLoader.load(src)\<close> of the shell: the executor of the loader
  runs, and a new image waits for its event.
\<close>

definition imageLoader_load :: "string \<Rightarrow> bool \<Rightarrow> world \<Rightarrow> world" where
  "imageLoader_load src awaited self =
     self\<lparr>s_imageLoader := load_executor src Undefined Undefined (s_imageLoader self),
          images := images self @ [(src, awaited)],
          load_calls := load_calls self @ [src]\<rparr>"

text \<open>
  \<^verbatim>\<open>
  failHandler(self) {
    return function () {
      clearTimeout(self._loadingTimeouter)
      _actions.removeContainerDom(self)
      self._currentSrc = self.$currentSrc === self.$placeholder
        ? TRANSPARENT_PLACEHOLDER_IMAGE
        : self.$placeholder
      self._imageLoader.load(self.$currentSrc)
    }
  }
  \<close>
\<close>

definition fallback :: "world \<Rightarrow> string" where
  "fallback self =
     (if s_currentSrc self = Val (o_placeholder (s_options self))
      then TRANSPARENT_PLACEHOLDER_IMAGE
      else o_placeholder (s_options self))"

definition failHandler :: "world \<Rightarrow> world" where
  "failHandler self =
     (let self1 = removeContainerDom (clearTimeout self);
          self2 = self1\<lparr>s_currentSrc := Val (fallback self1)\<rparr>
      in imageLoader_load (to_string (s_currentSrc self2)) False self2)"

text \<open>
  \<^verbatim>\<open>
  startAnimationing(self) {
    if (self.$currentSrc !== self.$actualSrc) { return }
    if (self._canAnimate || !self.$animate || !self.$animationClassName) { return }
    requestAnimationFrame(() => {
      self._animationing = true
      _actions.setClassName(self, self.$animationClassName + '-enter')
      requestAnimationFrame(() => {
        _actions.setClassName(self, self.$animationClassName + '-enter-active')
      })
    })
  }
  \<close>
\<close>

definition requestAnimationFrame :: "frame_callback \<Rightarrow> world \<Rightarrow> world" where
  "requestAnimationFrame cb self = self\<lparr>frame_queue := frame_queue self @ [cb]\<rparr>"

definition startAnimationing :: "world \<Rightarrow> world" where
  "startAnimationing self =
     (if s_currentSrc self \<noteq> s_actualSrc self then self
      else if truthy_bool (s_canAnimate self) \<or> \<not> o_animate (s_options self) \<or>
              \<not> truthy_str (o_animationClassName (s_options self)) then self
      else requestAnimationFrame Enter self)"

fun run_callback :: "frame_callback \<Rightarrow> world \<Rightarrow> world" where
  "run_callback Enter self =
     requestAnimationFrame EnterActive
       (setClassName (self\<lparr>s_animationing := Val True\<rparr>)
          (o_animationClassName (s_options self) @ ''-enter''))"
| "run_callback EnterActive self =
     setClassName self (o_animationClassName (s_options self) @ ''-enter-active'')"

subsection \<open>The constructor and load\<close>

text \<open>
  \<^verbatim>\<open>validation.isEmpty\<close> is a function of the package \<^verbatim>\<open>@~lisfan/validation\<close>; on the
  strings it is applied to here it tells the empty string.
\<close>

definition isEmpty :: "string \<Rightarrow> bool" where
  "isEmpty s \<longleftrightarrow> s = []"

text \<open>
  \<^verbatim>\<open>
  constructor(options) {
    this.$options = { ...ImageElementShell.options, ...options }
    this._imageLoader = new ImageLoader({ ... })
    this._imageLoader.on('load', _actions.successHandler(this))
    this._imageLoader.on('error', _actions.failHandler(this))
    _actions.setImageSrc(this.$el, TRANSPARENT_PLACEHOLDER_IMAGE)
    this._originClassNameList = this.$options.originClassName.split(' ')
    _actions.setClientSize(this)
    _actions.setAnimationEndHandler(this)
    if (validation.isEmpty(this.$originSrc) && !validation.isEmpty(this.$loadingPlaceholder)) {
      this._loadingTimeouter = setTimeout(() => {
        _actions.createContainerDom(this)
      }, this.$loadingDelay)
    }
    this.$el._shell = this
  }
  \<close>
  The second argument is the list \<^verbatim>\<open>loadedImageList\<close> as the loaders of the page have
  left it.
\<close>

definition construct :: "options \<Rightarrow> string js list \<Rightarrow> world" where
  "construct opts loaded_before =
     (let self0 =
            \<lparr>s_options = opts, s_imageLoader = new_ImageLoader,
             s_currentSrc = Undefined, s_actualSrc = Undefined, s_loaded = Undefined,
             s_canAnimate = Undefined, s_animationing = Undefined,
             s_parentNode = Undefined, s_placeholderNode = Undefined,
             s_loadingTimeouter = Undefined, s_originClassNameList = [],
             el = o_el opts, loadedImageList = loaded_before, timer = None,
             frame_queue = [], listener = False, images = [],
             containers = 0, created = 0, removed = 0, load_calls = [], results = []\<rparr>;
          self1 = self0\<lparr>el := setImageSrc (el self0) (Val TRANSPARENT_PLACEHOLDER_IMAGE)\<rparr>;
          self2 = self1\<lparr>s_originClassNameList := split_space (o_originClassName opts)\<rparr>;
          self3 = setAnimationEndHandler (setClientSize self2)
      in if isEmpty (o_originSrc opts) \<and> \<not> isEmpty (o_loadingPlaceholder opts)
         then self3\<lparr>s_loadingTimeouter := Val 1, timer := Some (o_loadingDelay opts)\<rparr>
         else self3)"

text \<open>
  \<^verbatim>\<open>
  load(actualSrc) {
    this._actualSrc = actualSrc
    this._currentSrc = actualSrc
    return this._imageLoader.load(actualSrc).then((result) => {
      this._canAnimate = this.$loaded && this._imageLoader.$loaded && !this.$force
      _actions.startAnimationing(this)
      return Promise.resolve(result)
    }).catch((err) => {
      this._canAnimate = false
      this._loaded = false
      return Promise.reject(err)
    })
  }
  \<close>
  \<open>js_and3 a b c\<close> is \<^verbatim>\<open>a && b && c\<close> for two fields and a boolean: the first falsy
  operand is the value, \<^verbatim>\<open>undefined\<close> included.
\<close>

definition js_and3 :: "bool js \<Rightarrow> bool js \<Rightarrow> bool \<Rightarrow> bool js" where
  "js_and3 a b c = (if \<not> truthy_bool a then a else if \<not> truthy_bool b then b else Val c)"

definition ImageElementShell_load :: "string \<Rightarrow> world \<Rightarrow> world" where
  "ImageElementShell_load actualSrc self =
     imageLoader_load actualSrc True
       (self\<lparr>s_actualSrc := Val actualSrc, s_currentSrc := Val actualSrc\<rparr>)"

definition load_then :: "world \<Rightarrow> world" where
  "load_then self =
     startAnimationing
       (self\<lparr>s_canAnimate :=
          js_and3 (s_loaded self) (l_loaded (s_imageLoader self)) (\<not> o_force (s_options self))\<rparr>)"

definition load_catch :: "world \<Rightarrow> world" where
  "load_catch self = self\<lparr>s_canAnimate := Val False, s_loaded := Val False\<rparr>"

subsection \<open>Events\<close>

text \<open>
  An image of the loader fires \<^verbatim>\<open>load\<close> or \<^verbatim>\<open>error\<close>. The listener of the loader updates
  the loader and the list, \<^verbatim>\<open>emit\<close> runs the handler that the constructor registered, and
  the promise of the loader settles; if it is the promise of a call of
  \<^verbatim>\<open>ImageElementShell.load\<close>, the callback of \<^verbatim>\<open>then\<close> or \<^verbatim>\<open>catch\<close> runs and the promise
  returned to the caller settles the same way. All this happens before the browser
  delivers another event.
\<close>

definition image_fires :: "nat \<Rightarrow> image_event \<Rightarrow> world \<Rightarrow> world" where
  "image_fires k ev self =
     (if k < length (images self) then
        (case images self ! k of (src, awaited) \<Rightarrow>
          (let self1 = self\<lparr>images := take k (images self) @ drop (Suc k) (images self)\<rparr>
           in case ev of
                ImageLoad \<Rightarrow>
                  (case load_listener True (s_imageLoader self1, loadedImageList self1) of
                     (p, l, list) \<Rightarrow>
                       (let self2 = successHandler (self1\<lparr>s_imageLoader := l, loadedImageList := list\<rparr>)
                        in if awaited
                           then (load_then self2)\<lparr>results := results self2 @ [(src, p)]\<rparr>
                           else self2))
              | ImageError \<Rightarrow>
                  (case error_listener True (s_imageLoader self1, loadedImageList self1) of
                     (p, l, list) \<Rightarrow>
                       (let self2 = failHandler (self1\<lparr>s_imageLoader := l, loadedImageList := list\<rparr>)
                        in if awaited
                           then (load_catch self2)\<lparr>results := results self2 @ [(src, p)]\<rparr>
                           else self2))))
      else self)"

text \<open>
  What can happen to an instance: the caller calls \<^verbatim>\<open>load\<close>; the image at a position of
  \<open>images\<close> fires; the timeout expires; the browser runs the callbacks queued for the
  next animation frame (those queued meanwhile wait for the frame after it); the
  browser fires the animation-end event on the element.
\<close>

datatype event = Load string | ImageFires nat image_event | Timeout | AnimationFrame | AnimationEnd

fun step :: "world \<Rightarrow> event \<Rightarrow> world" where
  "step w (Load src) = ImageElementShell_load src w"
| "step w (ImageFires k ev) = image_fires k ev w"
| "step w Timeout =
     (case timer w of None \<Rightarrow> w | Some d \<Rightarrow> createContainerDom (w\<lparr>timer := None\<rparr>))"
| "step w AnimationFrame = fold run_callback (frame_queue w) (w\<lparr>frame_queue := []\<rparr>)"
| "step w AnimationEnd = (if listener w then animationEndHandler w else w)"

definition run :: "world \<Rightarrow> event list \<Rightarrow> world" where
  "run w evs = foldl step w evs"

subsection \<open>The wrapper invariant\<close>

text \<open>
  \<open>removable\<close> is the condition under which \<^verbatim>\<open>removeContainerDom\<close> removes the wrapper.
  \<open>wrapper_inv\<close> holds in every state the instance reaches: the wrapper is created at
  most once, the counters agree with the document, \<^verbatim>\<open>_parentNode\<close> and
  \<^verbatim>\<open>_placeholderNode\<close> are set exactly while the wrapper exists, no wrapper was created
  while the timeout is pending, and while the timeout is pending or the wrapper
  exists no animation frame is requested and \<^verbatim>\<open>_animationing\<close> is not set.
\<close>

definition removable :: "world \<Rightarrow> bool" where
  "removable w \<longleftrightarrow>
     truthy_obj (s_parentNode w) \<and> truthy_obj (s_placeholderNode w) \<and>
     \<not> truthy_bool (s_animationing w)"

definition wrapper_inv :: "world \<Rightarrow> bool" where
  "wrapper_inv w \<longleftrightarrow>
     created w \<le> 1 \<and> containers w + removed w = created w \<and>
     (truthy_obj (s_parentNode w) \<longleftrightarrow> containers w = 1) \<and>
     (truthy_obj (s_placeholderNode w) \<longleftrightarrow> containers w = 1) \<and>
     (timer w \<noteq> None \<longrightarrow> created w = 0) \<and>
     (timer w \<noteq> None \<or> containers w = 1 \<longrightarrow>
        frame_queue w = [] \<and> \<not> truthy_bool (s_animationing w))"

subsection \<open>Example instances\<close>

text \<open>
  An \<^verbatim>\<open>img\<close> element of class \<^verbatim>\<open>pic\<close> without \<^verbatim>\<open>src\<close>, with the placeholder \<^verbatim>\<open>p.jpg\<close> and
  the loading placeholder \<^verbatim>\<open>l.gif\<close>; the same with an inline source; the same with the
  animation class \<^verbatim>\<open>fade\<close>; and states that these instances reach:
  \<^item> \<open>example_loading\<close>: \<^verbatim>\<open>load('a.jpg')\<close> was called;
  \<^item> \<open>example_wrapped\<close>: then the timeout expired;
  \<^item> \<open>example_reloaded\<close>: with the animation class, \<^verbatim>\<open>a.jpg\<close> has loaded and
    \<^verbatim>\<open>load('a.jpg')\<close> was called again;
  \<^item> \<open>example_after_failure\<close>: with the animation class, \<^verbatim>\<open>a.jpg\<close> has loaded and its
    animation has ended, \<^verbatim>\<open>load('x.jpg')\<close> has failed and the placeholder has loaded, and
    \<^verbatim>\<open>load('b.jpg')\<close> was called.
\<close>

definition example_el :: element where
  "example_el = \<lparr>nodeName_IMG = True, attr_src = Undefined, attr_class = Val ''pic'',
     style_backgroundImage = Undefined, style_cssText = []\<rparr>"

definition example_options :: options where
  "example_options =
     \<lparr>o_el = example_el, o_width = [], o_height = [], o_originSrc = [],
      o_originClassName = ''pic'', o_placeholder = ''p.jpg'', o_loadingPlaceholder = ''l.gif'',
      o_loadingDelay = 300, o_animationClassName = [], o_animate = True, o_force = False\<rparr>"

definition example_options_inline :: options where
  "example_options_inline = example_options\<lparr>o_originSrc := ''o.jpg''\<rparr>"

definition example_options_fade :: options where
  "example_options_fade = example_options\<lparr>o_animationClassName := ''fade''\<rparr>"

definition example_loading :: world where
  "example_loading = step (construct example_options []) (Load ''a.jpg'')"

definition example_loading_fade :: world where
  "example_loading_fade = step (construct example_options_fade []) (Load ''a.jpg'')"




definition example_after_failure :: world where
  "example_after_failure =
     run (construct example_options_fade [])
       [Load ''a.jpg'', ImageFires 0 ImageLoad, AnimationFrame, AnimationFrame, AnimationEnd,
        Load ''x.jpg'', ImageFires 0 ImageError, ImageFires 0 ImageLoad, Load ''b.jpg'']"

section \<open>Properties of getExtension and getMimeType\<close>

lemma greedy_until_no_semicolon:
  "CHR '';'' \<notin> set xs \<Longrightarrow> greedy_until '';base64,'' xs = None"
  by (induction xs) auto

lemma greedy_until_marker:
  assumes "\<forall>c \<in> set p. \<not> is_line_terminator c" and "CHR '';'' \<notin> set q"
  shows "greedy_until '';base64,'' (p @ '';base64,'' @ q) = Some p"
  using assms
proof (induction p)
  case Nil
  have "CHR '';'' \<notin> set (''base64,'' @ q)" using Nil.prems(2) by simp
  then have "greedy_until '';base64,'' (''base64,'' @ q) = None"
    by (rule greedy_until_no_semicolon)
  then show ?case by (simp add: is_line_terminator_def)
next
  case (Cons c p)
  then show ?case by simp
qed

lemma match_BASE64_REG_image:
  assumes "\<forall>c \<in> set sub. \<not> is_line_terminator c" and "CHR '';'' \<notin> set payload"
  shows "match_BASE64_REG (''data:image/'' @ sub @ '';base64,'' @ payload) = Some (''image/'' @ sub)"
proof -
  have "\<forall>c \<in> set (''image/'' @ sub). \<not> is_line_terminator c"
    using assms(1) by (simp add: is_line_terminator_def)
  then have "greedy_until '';base64,'' ((''image/'' @ sub) @ '';base64,'' @ payload) =
      Some (''image/'' @ sub)"
    using assms(2) by (rule greedy_until_marker)
  then show ?thesis by simp
qed

lemma replace_image_REG_prefix: "replace_image_REG (''image/'' @ sub) = sub"
  by simp

lemma replace_image_REG_no_image:
  "\<not> sublist ''image/'' m \<Longrightarrow> replace_image_REG m = m"
proof (induction m)
  case Nil
  show ?case by simp
next
  case (Cons c cs)
  have a: "\<not> prefix ''image/'' (c # cs)"
  proof
    assume "prefix ''image/'' (c # cs)"
    then have "sublist ''image/'' (c # cs)" by (rule prefix_imp_sublist)
    with Cons.prems show False by (rule notE)
  qed
  have b: "\<not> sublist ''image/'' cs"
  proof
    assume "sublist ''image/'' cs"
    then have "sublist ''image/'' (c # cs)" by (rule sublist_Cons_right [THEN iffD2, OF disjI2])
    with Cons.prems show False by (rule notE)
  qed
  have "replace_image_REG (c # cs) = c # replace_image_REG cs"
    using a by (simp only: replace_image_REG.simps if_False)
  then show ?case using Cons.IH [OF b] by (simp only:)
qed

lemma match_BASE64_REG_mime:
  assumes "\<forall>c \<in> set mime. \<not> is_line_terminator c" and "CHR '';'' \<notin> set payload"
  shows "match_BASE64_REG (''data:'' @ mime @ '';base64,'' @ payload) = Some mime"
  using greedy_until_marker [OF assms] by simp

text \<open>
  Claim C7, amended. For every source \<^verbatim>\<open>data:image/<subtype>;base64,<payload>\<close> whose
  subtype has no line terminator and whose payload has no semicolon (no character of
  base64 is one), \<open>getExtension\<close> returns the subtype in lower case. The mime type has
  to start with \<^verbatim>\<open>image/\<close>: the regular expression of the base64 branch removes that
  text and nothing else. For a source \<^verbatim>\<open>data:<mime>;base64,<payload>\<close> whose mime type has
  no line terminator and does not contain the text \<^verbatim>\<open>image/\<close>, \<open>getExtension\<close> returns
  the whole mime type in lower case.
\<close>

theorem getExtension_image_data_url:
  assumes "\<forall>c \<in> set sub. \<not> is_line_terminator c" and "CHR '';'' \<notin> set payload"
  shows "getExtension (''data:image/'' @ sub @ '';base64,'' @ payload) = toLocaleLowerCase sub \<and>
         ((\<forall>c \<in> set mime. \<not> is_line_terminator c) \<and> \<not> sublist ''image/'' mime \<longrightarrow>
            getExtension (''data:'' @ mime @ '';base64,'' @ payload) = toLocaleLowerCase mime)"
proof (intro conjI impI)
  show "getExtension (''data:image/'' @ sub @ '';base64,'' @ payload) = toLocaleLowerCase sub"
    using match_BASE64_REG_image [OF assms] replace_image_REG_prefix [of sub]
    by (simp add: getExtension_def del: match_BASE64_REG.simps replace_image_REG.simps)
next
  assume m: "(\<forall>c \<in> set mime. \<not> is_line_terminator c) \<and> \<not> sublist ''image/'' mime"
  note l = m [THEN conjunct1] and h = m [THEN conjunct2]
  show "getExtension (''data:'' @ mime @ '';base64,'' @ payload) = toLocaleLowerCase mime"
    using match_BASE64_REG_mime [OF l assms(2)] replace_image_REG_no_image [OF h]
    by (simp add: getExtension_def del: match_BASE64_REG.simps replace_image_REG.simps)
qed

text \<open>
  The theorem at \<^verbatim>\<open>data:image/PNG;base64,iVBORw0KGgo=\<close>, where the extension is \<^verbatim>\<open>png\<close>,
  and at \<^verbatim>\<open>data:text/PLAIN;base64,iVBORw0KGgo=\<close>, where it is \<^verbatim>\<open>text/plain\<close>.
\<close>

theorem getExtension_image_data_url_witness:
  "getExtension ''data:image/PNG;base64,iVBORw0KGgo='' = ''png'' \<and>
   \<not> sublist ''image/'' ''text/PLAIN'' \<and>
   getExtension ''data:text/PLAIN;base64,iVBORw0KGgo='' = ''text/plain''"
proof -
  have a: "\<forall>c \<in> set ''PNG''. \<not> is_line_terminator c" by (simp add: is_line_terminator_def)
  have b: "CHR '';'' \<notin> set ''iVBORw0KGgo=''" by simp
  have c: "\<forall>c \<in> set ''text/PLAIN''. \<not> is_line_terminator c"
    by (simp add: is_line_terminator_def)
  have d: "\<not> sublist ''image/'' ''text/PLAIN''" by code_simp
  have l1: "toLocaleLowerCase ''PNG'' = ''png''" by code_simp
  have l2: "toLocaleLowerCase ''text/PLAIN'' = ''text/plain''" by code_simp
  note T = getExtension_image_data_url [OF a b, of "''text/PLAIN''"]
  have p: "getExtension ''data:image/PNG;base64,iVBORw0KGgo='' = ''png''"
    using T [THEN conjunct1] l1 by simp
  have q: "getExtension ''data:text/PLAIN;base64,iVBORw0KGgo='' = ''text/plain''"
    using T [THEN conjunct2, THEN mp, OF conjI [OF c d]] l2 by simp
  show ?thesis by (rule conjI [OF p conjI [OF d q]])
qed

text \<open>
  Claim C7 as stated, for any mime type, fails at \<^verbatim>\<open>data:text/plain;base64,AAAA\<close>: the
  result is the whole mime type \<^verbatim>\<open>text/plain\<close>, not its subtype \<^verbatim>\<open>plain\<close>.
\<close>

theorem getExtension_any_mime_counterexample:
  "getExtension ''data:text/plain;base64,AAAA'' = ''text/plain'' \<and>
   ''text/plain'' \<noteq> toLocaleLowerCase ''plain''"
  by code_simp

lemma MIME_TYPE_keys:
  "map_of MIME_TYPE ext = Some m \<Longrightarrow> ext \<in> {''jpg'', ''jepg'', ''png'', ''webp''}"
  by (drule map_of_SomeD) (auto simp: MIME_TYPE_def)

lemma MIME_TYPE_other:
  "ext \<notin> {''jpg'', ''jepg'', ''png'', ''webp''} \<Longrightarrow> map_of MIME_TYPE ext = None"
  by (simp add: MIME_TYPE_def)

lemma Object_prototype_no_string:
  "map_of Object_prototype ext = Some v \<Longrightarrow> v \<noteq> JSString m"
  by (drule map_of_SomeD) (auto simp: Object_prototype_def)

lemma Object_prototype_other:
  "ext \<notin> fst ` set Object_prototype \<Longrightarrow> map_of Object_prototype ext = None"
  by (simp add: map_of_eq_None_iff)

lemma getMimeType_string:
  assumes g: "getMimeType ext = JSString m"
  shows "ext \<in> {''jpg'', ''jepg'', ''png'', ''webp''}"
proof (cases "map_of MIME_TYPE ext")
  case (Some a)
  then show ?thesis by (rule MIME_TYPE_keys)
next
  case None
  show ?thesis
  proof (cases "map_of Object_prototype ext")
    case n: None
    with None g show ?thesis by (simp add: getMimeType_def)
  next
    case (Some v)
    with None g have "v = JSString m" by (simp add: getMimeType_def)
    with Object_prototype_no_string [OF Some, of m] show ?thesis by simp
  qed
qed

lemma getMimeType_undefined:
  "ext \<notin> {''jpg'', ''jepg'', ''png'', ''webp''} \<Longrightarrow> ext \<notin> fst ` set Object_prototype \<Longrightarrow>
   getMimeType ext = JSUndefined"
  by (simp add: getMimeType_def MIME_TYPE_other Object_prototype_other)

lemma getMimeType_jpeg: "getMimeType ''jpeg'' = JSUndefined"
  by (simp add: getMimeType_def MIME_TYPE_def Object_prototype_def)

lemma getMimeType_four:
  "getMimeType ''jpg'' = JSString ''image/jpeg''" "getMimeType ''jepg'' = JSString ''image/jpeg''"
  "getMimeType ''png'' = JSString ''image/png''" "getMimeType ''webp'' = JSString ''image/webp''"
  by (simp_all add: getMimeType_def MIME_TYPE_def)

text \<open>
  What the lookup returns: a mime type for the four extensions \<^verbatim>\<open>jpg\<close>, \<^verbatim>\<open>jepg\<close>, \<^verbatim>\<open>png\<close>
  and \<^verbatim>\<open>webp\<close> and for no other input; \<^verbatim>\<open>undefined\<close> for every input that is neither one
  of the four nor the name of a property inherited from \<^verbatim>\<open>Object.prototype\<close>, in
  particular for \<^verbatim>\<open>jpeg\<close>; and the canvas export of a source with the extension \<^verbatim>\<open>jpeg\<close>,
  called without a format, passes \<^verbatim>\<open>undefined\<close> as the mime type.
\<close>

lemma getMimeType_table:
  "getMimeType ''jpg'' = JSString ''image/jpeg'' \<and>
   getMimeType ''jepg'' = JSString ''image/jpeg'' \<and>
   getMimeType ''png'' = JSString ''image/png'' \<and>
   getMimeType ''webp'' = JSString ''image/webp'' \<and>
   (\<forall>ext m. getMimeType ext = JSString m \<longrightarrow> ext \<in> {''jpg'', ''jepg'', ''png'', ''webp''}) \<and>
   (\<forall>ext. ext \<notin> {''jpg'', ''jepg'', ''png'', ''webp''} \<and> ext \<notin> fst ` set Object_prototype \<longrightarrow>
      getMimeType ext = JSUndefined) \<and>
   getMimeType ''jpeg'' = JSUndefined \<and>
   (\<forall>self img src. l_image self = Val img \<and> l_currentSrc self = Val src \<and>
      getExtension src = ''jpeg'' \<longrightarrow> canvas_mimeType self None = Inr JSUndefined)"
proof -
  have a: "\<forall>ext m. getMimeType ext = JSString m \<longrightarrow> ext \<in> {''jpg'', ''jepg'', ''png'', ''webp''}"
    by (intro allI impI) (rule getMimeType_string)
  have b: "\<forall>ext. ext \<notin> {''jpg'', ''jepg'', ''png'', ''webp''} \<and> ext \<notin> fst ` set Object_prototype \<longrightarrow>
      getMimeType ext = JSUndefined"
    by (intro allI impI, elim conjE) (rule getMimeType_undefined)
  have c: "\<forall>self img src. l_image self = Val img \<and> l_currentSrc self = Val src \<and>
      getExtension src = ''jpeg'' \<longrightarrow> canvas_mimeType self None = Inr JSUndefined"
    by (intro allI impI, elim conjE) (simp add: canvas_mimeType_def getMimeType_jpeg)
  show ?thesis
    by (rule conjI [OF getMimeType_four(1) conjI [OF getMimeType_four(2)
          conjI [OF getMimeType_four(3) conjI [OF getMimeType_four(4)
          conjI [OF a conjI [OF b conjI [OF getMimeType_jpeg c]]]]]]])
qed

text \<open>
  Claim C10. The claim has \<open>getMimeType\<close> return \<^verbatim>\<open>undefined\<close> for every input other than
  the four extensions. At the extension \<^verbatim>\<open>constructor\<close>, which \<open>getExtension\<close> gives for the
  source \<^verbatim>\<open>a.constructor\<close>, the lookup in the object literal finds the property inherited
  from \<^verbatim>\<open>Object.prototype\<close>: the code returns the function \<^verbatim>\<open>Object\<close>, and the canvas export
  of a loader with that source passes it on as the mime type.
\<close>

theorem getMimeType_constructor_inherited:
  "getMimeType ''constructor'' = JSFunction ''Object'' \<and>
   getMimeType ''constructor'' \<noteq> JSUndefined \<and>
   getExtension ''a.constructor'' = ''constructor'' \<and>
   canvas_mimeType
     (load_executor ''a.constructor'' Undefined Undefined new_ImageLoader) None =
     Inr (JSFunction ''Object'')"
  by code_simp

section \<open>Properties of ImageLoader\<close>

lemma ajax_resolved_iff:
  "ajax x = Resolved r \<longleftrightarrow> x = XhrLoad 4 200 r"
  by (cases x) (auto simp: ajax_def or_eq_0_iff)

lemma ajax_not_pending: "ajax x \<noteq> Pending"
  by (cases x) (auto simp: ajax_def)

lemma ajax_bad_status: "st \<noteq> 200 \<Longrightarrow> ajax (XhrLoad rs st resp) = Rejected (XhrBadStatus rs st)"
  by (simp add: ajax_def or_eq_0_iff)

lemma load_resolved_iff:
  "fst (load src w h ev ok (self, list)) = Resolved () \<longleftrightarrow> ev = Some ImageLoad \<and> ok"
  by (auto simp: load_def load_listener_def error_listener_def Let_def split: option.splits image_event.splits)

lemma load_resolved_state:
  assumes "load src w h ev ok (self, list) = (Resolved (), self1, list1)"
  shows "l_loaded self1 = Val (Val src \<in> set list)"
    and "list1 = (if Val src \<in> set list then list else list @ [Val src])"
    and "l_currentSrc self1 = Val src" and "l_status self1 = Val Success"
  using assms
  by (auto simp: load_def load_listener_def error_listener_def load_executor_def Let_def
           split: option.splits image_event.splits if_splits)


text \<open>The promise of a call is resolved only by the load event of its image.\<close>

lemma loader_step_resolved:
  assumes "k < length (lw_pending w)"
  shows "(\<exists>f. lw_settled (loader_step w (ImageEvent k ev ok)) =
            lw_settled w @ [(lw_pending w ! k, Resolved (), f)]) \<longleftrightarrow> ev = ImageLoad \<and> ok"
  using assms
  by (cases ev) (auto simp: load_listener_def error_listener_def Let_def)


declare loader_step.simps [simp del]







text \<open>
  Claim C6, amended. For every loader whose current source matches the base64
  pattern and that holds an image or a blob, \<^verbatim>\<open>base64\<close> resolves with the current
  source, whatever the format, and creates no canvas.
\<close>

theorem base64_passthrough:
  assumes "l_currentSrc self = Val src" and "match_BASE64_REG src \<noteq> None"
    and "truthy_obj (l_blob self) \<or> truthy_obj (l_image self)"
  shows "base64 canvas format self = (Resolved src, False)"
  using assms by (auto simp: base64_def)


text \<open>The theorem at a loader that has loaded \<^verbatim>\<open>data:image/png;base64,AAAA\<close>.\<close>

theorem base64_passthrough_witness:
  "base64 (\<lambda>i m. Inr ''other'') (Some ''jpg'')
     (fst (snd (load ''data:image/png;base64,AAAA'' Undefined Undefined (Some ImageLoad) True
        (new_ImageLoader, [])))) =
   (Resolved ''data:image/png;base64,AAAA'', False)"
proof -
  have a: "l_currentSrc (fst (snd (load ''data:image/png;base64,AAAA'' Undefined Undefined
      (Some ImageLoad) True (new_ImageLoader, [])))) = Val ''data:image/png;base64,AAAA''"
    by (simp add: load_def load_listener_def load_executor_def new_ImageLoader_def
        isSameResource_def)
  have b: "match_BASE64_REG ''data:image/png;base64,AAAA'' \<noteq> None"
    by (simp add: is_line_terminator_def)
  have c: "truthy_obj (l_blob (fst (snd (load ''data:image/png;base64,AAAA'' Undefined Undefined
      (Some ImageLoad) True (new_ImageLoader, []))))) \<or>
    truthy_obj (l_image (fst (snd (load ''data:image/png;base64,AAAA'' Undefined Undefined
      (Some ImageLoad) True (new_ImageLoader, [])))))"
    by (simp add: load_def load_listener_def load_executor_def new_ImageLoader_def
        isSameResource_def)
  show ?thesis by (rule base64_passthrough [OF a b c])
qed

text \<open>
  Claim C6 as stated, for every instance whose current source matches, fails at the
  instance that \<^verbatim>\<open>fetch\<close> leaves when \<^verbatim>\<open>dataURLToBlob\<close> throws: for
  \<^verbatim>\<open>data:image/png;base64,*\<close> the payload is no base64, \<^verbatim>\<open>atob\<close> throws, the promise of
  \<^verbatim>\<open>fetch\<close> is rejected, and the instance has the source but neither image nor blob.
  \<^verbatim>\<open>base64\<close> then rejects.
\<close>

theorem base64_without_resource_counterexample:
  "fetch ''data:image/png;base64,*'' None None True (new_ImageLoader, []) =
     (Rejected InvalidCharacterError,
      \<lparr>l_image = Null, l_blob = Undefined, l_currentSrc = Val ''data:image/png;base64,*'',
       l_status = Undefined, l_loaded = Undefined\<rparr>, []) \<and>
   match_BASE64_REG ''data:image/png;base64,*'' = Some ''image/png'' \<and>
   base64 (\<lambda>i m. Inr ''other'') None
     \<lparr>l_image = Null, l_blob = Undefined, l_currentSrc = Val ''data:image/png;base64,*'',
      l_status = Undefined, l_loaded = Undefined\<rparr> = (Rejected NotLoaded, False)"
proof -
  have m: "match_BASE64_REG ''data:image/png;base64,*'' = Some ''image/png''"
    by (simp add: is_line_terminator_def)
  have d: "dataURLToBlob ''data:image/png;base64,*'' = Inl InvalidCharacterError"
    by code_simp
  have f: "fetch ''data:image/png;base64,*'' None None True (new_ImageLoader, []) =
     (Rejected InvalidCharacterError,
      \<lparr>l_image = Null, l_blob = Undefined, l_currentSrc = Val ''data:image/png;base64,*'',
       l_status = Undefined, l_loaded = Undefined\<rparr>, [])"
    by (simp add: fetch_def m d new_ImageLoader_def isSameResource_def
        del: match_BASE64_REG.simps)
  have b: "base64 (\<lambda>i m. Inr ''other'') None
     \<lparr>l_image = Null, l_blob = Undefined, l_currentSrc = Val ''data:image/png;base64,*'',
      l_status = Undefined, l_loaded = Undefined\<rparr> = (Rejected NotLoaded, False)"
    by (simp add: base64_def m del: match_BASE64_REG.simps)
  show ?thesis by (rule conjI [OF f conjI [OF m b]])
qed

text \<open>
  Claim C8. For a source that does not match the base64 pattern, the promise of
  \<^verbatim>\<open>fetch\<close> is rejected when the request loads with a status other than 200 and when
  it fires \<^verbatim>\<open>error\<close>; it resolves only when the request has loaded with status 200
  and the \<^verbatim>\<open>load\<close> it then delegates to resolves (the image fires \<^verbatim>\<open>load\<close> and the
  promise of \<^verbatim>\<open>emit\<close> resolves).
\<close>

theorem fetch_xhr_status:
  assumes "match_BASE64_REG src = None"
  shows "(\<forall>rs st resp. st \<noteq> 200 \<longrightarrow>
            fst (fetch src (Some (XhrLoad rs st resp)) ev ok (self, list)) = Rejected (XhrBadStatus rs st)) \<and>
         fst (fetch src (Some XhrError) ev ok (self, list)) = Rejected XhrTransport \<and>
         (fst (fetch src xhr ev ok (self, list)) = Resolved () \<longrightarrow>
            (\<exists>resp. xhr = Some (XhrLoad 4 200 resp)) \<and> ev = Some ImageLoad \<and> ok)"
proof (intro conjI allI impI)
  fix rs st resp
  assume "st \<noteq> (200::nat)"
  then show "fst (fetch src (Some (XhrLoad rs st resp)) ev ok (self, list)) = Rejected (XhrBadStatus rs st)"
    using assms by (simp add: fetch_def Let_def ajax_bad_status)
next
  show "fst (fetch src (Some XhrError) ev ok (self, list)) = Rejected XhrTransport"
    using assms by (simp add: fetch_def Let_def ajax_def)
next
  assume r: "fst (fetch src xhr ev ok (self, list)) = Resolved ()"
  then obtain x where x: "xhr = Some x"
    using assms by (cases xhr) (auto simp: fetch_def Let_def)
  from r x assms obtain resp where a: "ajax x = Resolved resp"
    by (cases "ajax x") (auto simp: fetch_def Let_def)
  then have "x = XhrLoad 4 200 resp" by (simp add: ajax_resolved_iff)
  with x show "\<exists>resp. xhr = Some (XhrLoad 4 200 resp)" by blast
  from r x a assms show "ev = Some ImageLoad"
    by (simp add: fetch_def Let_def load_resolved_iff)
  from r x a assms show "ok"
    by (simp add: fetch_def Let_def load_resolved_iff)
qed


text \<open>
  The theorem at \<^verbatim>\<open>a.png\<close>: status 404 rejects, status 200 with a loaded image resolves.
\<close>

theorem fetch_xhr_status_witness:
  "match_BASE64_REG ''a.png'' = None \<and>
   fst (fetch ''a.png'' (Some (XhrLoad 4 404 \<lparr>blob_type = ''text/html'', blob_size = 9\<rparr>))
          (Some ImageLoad) True (new_ImageLoader, [])) = Rejected (XhrBadStatus 4 404) \<and>
   fst (fetch ''a.png'' (Some XhrError) (Some ImageLoad) True (new_ImageLoader, [])) =
     Rejected XhrTransport \<and>
   fst (fetch ''a.png'' (Some (XhrLoad 4 200 \<lparr>blob_type = ''image/png'', blob_size = 9\<rparr>))
          (Some ImageLoad) True (new_ImageLoader, [])) = Resolved ()"
proof -
  have m: "match_BASE64_REG ''a.png'' = None" by simp
  have n: "(404::nat) \<noteq> 200" by simp
  note T = fetch_xhr_status [OF m, of "Some ImageLoad" True new_ImageLoader "[]"]
  have a: "fst (fetch ''a.png'' (Some (XhrLoad 4 404 \<lparr>blob_type = ''text/html'', blob_size = 9\<rparr>))
          (Some ImageLoad) True (new_ImageLoader, [])) = Rejected (XhrBadStatus 4 404)"
    using T [THEN conjunct1] n by blast
  have b: "fst (fetch ''a.png'' (Some XhrError) (Some ImageLoad) True (new_ImageLoader, [])) =
     Rejected XhrTransport"
    using T [THEN conjunct2, THEN conjunct1] .
  have c: "fst (fetch ''a.png'' (Some (XhrLoad 4 200 \<lparr>blob_type = ''image/png'', blob_size = 9\<rparr>))
          (Some ImageLoad) True (new_ImageLoader, [])) = Resolved ()"
    by (simp add: fetch_def m ajax_def Let_def load_resolved_iff del: match_BASE64_REG.simps)
  show ?thesis by (rule conjI [OF m conjI [OF a conjI [OF b c]]])
qed

section \<open>Properties of ImageElementShell\<close>

lemmas shell_defs =
  removeContainerDom_def clearTimeout_def successHandler_def failHandler_def
  imageLoader_load_def load_then_def load_catch_def startAnimationing_def
  requestAnimationFrame_def setClassName_def createContainerDom_def
  animationEndHandler_def removeAnimationEnd_def addAnimationEnd_def
  ImageElementShell_load_def load_listener_def error_listener_def

lemma run_Nil [simp]: "run w [] = w"
  by (simp add: run_def)

lemma run_Cons [simp]: "run w (e # es) = run (step w e) es"
  by (simp add: run_def)

lemma run_append: "run w (xs @ ys) = run (run w xs) ys"
  by (simp add: run_def)

lemma image_fires_error_load_calls:
  "k < length (images w) \<Longrightarrow>
   load_calls (image_fires k ImageError w) = load_calls w @ [fallback w]"
  by (simp add: image_fires_def shell_defs fallback_def Let_def split: prod.splits)

lemma image_fires_error_images:
  "k < length (images w) \<Longrightarrow>
   images (image_fires k ImageError w) =
     take k (images w) @ drop (Suc k) (images w) @ [(fallback w, False)]"
  by (simp add: image_fires_def shell_defs fallback_def Let_def split: prod.splits)

text \<open>
  Claim C1, amended. For every load of the shell's loader that fails, the shell issues
  exactly one further load: of the built-in transparent image if the current source of
  the shell (the one that has just failed) is the configured placeholder, and of the
  configured placeholder otherwise. This holds at every failure, that of a fallback
  included.
\<close>

theorem failure_issues_one_fallback_load:
  assumes "k < length (images w)"
  shows "load_calls (step w (ImageFires k ImageError)) =
           load_calls w @
             [if s_currentSrc w = Val (o_placeholder (s_options w))
              then TRANSPARENT_PLACEHOLDER_IMAGE else o_placeholder (s_options w)] \<and>
         images (step w (ImageFires k ImageError)) =
           take k (images w) @ drop (Suc k) (images w) @
             [(if s_currentSrc w = Val (o_placeholder (s_options w))
               then TRANSPARENT_PLACEHOLDER_IMAGE else o_placeholder (s_options w), False)]"
  using image_fires_error_load_calls [OF assms] image_fires_error_images [OF assms]
  by (simp add: fallback_def)

text \<open>
  The theorem at the example instance after \<^verbatim>\<open>load('a.jpg')\<close>: when the image fails,
  the placeholder \<^verbatim>\<open>p.jpg\<close> is loaded.
\<close>

theorem failure_issues_one_fallback_load_witness:
  "load_calls (step (step (construct example_options []) (Load ''a.jpg'')) (ImageFires 0 ImageError)) =
     [''a.jpg'', ''p.jpg'']"
proof -
  have h: "0 < length (images (step (construct example_options []) (Load ''a.jpg'')))"
    by code_simp
  have a: "load_calls (step (step (construct example_options []) (Load ''a.jpg''))
             (ImageFires 0 ImageError)) =
           load_calls (step (construct example_options []) (Load ''a.jpg'')) @
             [if s_currentSrc (step (construct example_options []) (Load ''a.jpg'')) =
                 Val (o_placeholder (s_options (step (construct example_options []) (Load ''a.jpg''))))
              then TRANSPARENT_PLACEHOLDER_IMAGE
              else o_placeholder (s_options (step (construct example_options []) (Load ''a.jpg'')))]"
    by (rule failure_issues_one_fallback_load [OF h, THEN conjunct1])
  have b: "load_calls (step (construct example_options []) (Load ''a.jpg'')) @
             [if s_currentSrc (step (construct example_options []) (Load ''a.jpg'')) =
                 Val (o_placeholder (s_options (step (construct example_options []) (Load ''a.jpg''))))
              then TRANSPARENT_PLACEHOLDER_IMAGE
              else o_placeholder (s_options (step (construct example_options []) (Load ''a.jpg'')))] =
           [''a.jpg'', ''p.jpg'']"
    by code_simp
  show ?thesis by (rule trans [OF a b])
qed

text \<open>
  Claim C1 as stated, no further load once the fallback has failed, fails at the
  example instance: \<^verbatim>\<open>a.jpg\<close> fails, the placeholder \<^verbatim>\<open>p.jpg\<close> is loaded and fails, and
  a third load is issued, of the transparent image.
\<close>

theorem fallback_failure_third_load_counterexample:
  "load_calls (run (construct example_options [])
     [Load ''a.jpg'', ImageFires 0 ImageError, ImageFires 0 ImageError]) =
   [''a.jpg'', ''p.jpg'', TRANSPARENT_PLACEHOLDER_IMAGE]"
  by code_simp

lemma image_fires_load_canAnimate:
  assumes "k < length (images w)" and "images w ! k = (src, True)"
  shows "s_canAnimate (image_fires k ImageLoad w) =
           js_and3 (s_loaded w) (l_loaded (s_imageLoader (image_fires k ImageLoad w)))
             (\<not> o_force (s_options w))"
    and "l_loaded (s_imageLoader (image_fires k ImageLoad w)) =
           Val (l_currentSrc (s_imageLoader w) \<in> set (loadedImageList w))"
    and "frame_queue (image_fires k ImageLoad w) =
           (if s_currentSrc w = s_actualSrc w \<and>
               \<not> truthy_bool (s_canAnimate (image_fires k ImageLoad w)) \<and>
               o_animate (s_options w) \<and> truthy_str (o_animationClassName (s_options w))
            then frame_queue w @ [Enter] else frame_queue w)"
    and "results (image_fires k ImageLoad w) = results w @ [(src, Resolved ())]"
  using assms
  by (simp_all add: image_fires_def shell_defs Let_def split: prod.splits)

lemma image_fires_error_flags:
  assumes "k < length (images w)" and "images w ! k = (src, True)"
  shows "s_loaded (image_fires k ImageError w) = Val False"
    and "s_canAnimate (image_fires k ImageError w) = Val False"
    and "results (image_fires k ImageError w) = results w @ [(src, Rejected ImageFailed)]"
  using assms
  by (simp_all add: image_fires_def shell_defs Let_def split: prod.splits)

lemma truthy_js_and3:
  "truthy_bool (js_and3 a b c) \<longleftrightarrow> truthy_bool a \<and> truthy_bool b \<and> c"
  by (simp add: js_and3_def)

text \<open>
  What the callbacks of \<^verbatim>\<open>load\<close> do. When the loader's promise of a call resolves,
  \<^verbatim>\<open>_canAnimate\<close> is set to \<^verbatim>\<open>this.$loaded && this._imageLoader.$loaded && !this.$force\<close>:
  it is truthy exactly when the shell's \<^verbatim>\<open>_loaded\<close> is truthy, the flag of the loader is
  true and force is not set. The trigger runs with this value and requests an
  animation frame only when it is falsy (and the current source is the actual one,
  animation is enabled and the class name is not empty). When the promise is
  rejected, \<^verbatim>\<open>_loaded\<close> and \<^verbatim>\<open>_canAnimate\<close> are set to false and the promise returned to the
  caller is rejected.
\<close>

lemma load_settles_flags:
  assumes "k < length (images w)" and "images w ! k = (src, True)"
  shows "s_canAnimate (step w (ImageFires k ImageLoad)) =
           js_and3 (s_loaded w) (l_loaded (s_imageLoader (step w (ImageFires k ImageLoad))))
             (\<not> o_force (s_options w)) \<and>
         (truthy_bool (s_canAnimate (step w (ImageFires k ImageLoad))) \<longleftrightarrow>
            truthy_bool (s_loaded w) \<and>
            truthy_bool (l_loaded (s_imageLoader (step w (ImageFires k ImageLoad)))) \<and>
            \<not> o_force (s_options w)) \<and>
         frame_queue (step w (ImageFires k ImageLoad)) =
           (if s_currentSrc w = s_actualSrc w \<and>
               \<not> truthy_bool (s_canAnimate (step w (ImageFires k ImageLoad))) \<and>
               o_animate (s_options w) \<and> truthy_str (o_animationClassName (s_options w))
            then frame_queue w @ [Enter] else frame_queue w) \<and>
         results (step w (ImageFires k ImageLoad)) = results w @ [(src, Resolved ())] \<and>
         s_loaded (step w (ImageFires k ImageError)) = Val False \<and>
         s_canAnimate (step w (ImageFires k ImageError)) = Val False \<and>
         results (step w (ImageFires k ImageError)) = results w @ [(src, Rejected ImageFailed)]"
proof -
  note L = image_fires_load_canAnimate [OF assms]
  note E = image_fires_error_flags [OF assms]
  have t: "truthy_bool (s_canAnimate (image_fires k ImageLoad w)) \<longleftrightarrow>
            truthy_bool (s_loaded w) \<and>
            truthy_bool (l_loaded (s_imageLoader (image_fires k ImageLoad w))) \<and>
            \<not> o_force (s_options w)"
    by (simp only: L(1) truthy_js_and3)
  show ?thesis
    unfolding step.simps
    by (rule conjI [OF L(1) conjI [OF t conjI [OF L(3) conjI [OF L(4)
          conjI [OF E(1) conjI [OF E(2) E(3)]]]]]])
qed


lemma run_callback_frame [simp]:
  "s_options (run_callback cb w) = s_options w"
  "s_originClassNameList (run_callback cb w) = s_originClassNameList w"
  "listener (run_callback cb w) = listener w"
  by (cases cb; simp add: shell_defs)+

lemma fold_run_callback_frame [simp]:
  "s_options (fold run_callback q w) = s_options w"
  "s_originClassNameList (fold run_callback q w) = s_originClassNameList w"
  "listener (fold run_callback q w) = listener w"
  by (induction q arbitrary: w) simp_all

lemma className_cong:
  "s_originClassNameList w' = s_originClassNameList w \<Longrightarrow> className w' c = className w c"
  by (simp add: className_def)

lemma run_callback_class:
  "attr_class (el (run_callback Enter w)) =
     Val (className w (o_animationClassName (s_options w) @ ''-enter''))"
  "attr_class (el (run_callback EnterActive w)) =
     Val (className w (o_animationClassName (s_options w) @ ''-enter-active''))"
  by (simp_all add: shell_defs className_def)

lemma frame_queue_run_callback:
  "frame_queue (run_callback cb w) =
     frame_queue w @ (case cb of Enter \<Rightarrow> [EnterActive] | EnterActive \<Rightarrow> [])"
  by (cases cb; simp add: shell_defs)

declare run_callback.simps [simp del]

lemma frame_queue_fold:
  "frame_queue (fold run_callback q w) =
     frame_queue w @ map (\<lambda>_. EnterActive) (filter (\<lambda>c. c = Enter) q)"
  by (induction q arbitrary: w) (auto simp: frame_queue_run_callback split: frame_callback.splits)

lemma frame_ends_with:
  assumes "frame_queue w = q @ [cb]"
  shows "step w AnimationFrame = run_callback cb (fold run_callback q (w\<lparr>frame_queue := []\<rparr>))"
  using assms by simp

lemma image_fires_load_frame:
  "s_options (image_fires k ImageLoad w) = s_options w"
  "s_originClassNameList (image_fires k ImageLoad w) = s_originClassNameList w"
  "listener (image_fires k ImageLoad w) = listener w"
  by (simp_all add: image_fires_def shell_defs Let_def split: prod.splits)

text \<open>
  Claim C4, amended. When the loader's promise of a call of \<^verbatim>\<open>load\<close> resolves with the
  current source equal to the actual source, animation enabled, a class name that is
  not empty, and either the shell's \<^verbatim>\<open>_loaded\<close> or the loader's \<^verbatim>\<open>$loaded\<close> falsy, the class
  of the element is set to the original classes and \<^verbatim>\<open><name>-enter\<close> in the next
  animation frame and to \<^verbatim>\<open><name>-enter-active\<close> in the frame after it. When the
  animation-end event then fires, the class is set to \<^verbatim>\<open><name>-enter-end\<close> if the handler
  of the event is still registered, and stays \<^verbatim>\<open><name>-enter-active\<close> if it is not. The
  handler is registered once, by the constructor, and unregisters itself at the first
  animation-end event.
\<close>

theorem animation_classes:
  assumes "k < length (images w)" and "images w ! k = (src, True)"
    and "s_currentSrc w = s_actualSrc w"
    and "o_animate (s_options w)" and "truthy_str (o_animationClassName (s_options w))"
    and "\<not> truthy_bool (s_loaded w) \<or>
         l_currentSrc (s_imageLoader w) \<notin> set (loadedImageList w)"
  shows "attr_class (el (run w [ImageFires k ImageLoad, AnimationFrame])) =
           Val (className w (o_animationClassName (s_options w) @ ''-enter'')) \<and>
         attr_class (el (run w [ImageFires k ImageLoad, AnimationFrame, AnimationFrame])) =
           Val (className w (o_animationClassName (s_options w) @ ''-enter-active'')) \<and>
         attr_class (el (run w [ImageFires k ImageLoad, AnimationFrame, AnimationFrame,
             AnimationEnd])) =
           Val (className w (o_animationClassName (s_options w) @
                  (if listener w then ''-enter-end'' else ''-enter-active'')))"
proof -
  define w1 where "w1 = step w (ImageFires k ImageLoad)"
  define w2 where "w2 = step w1 AnimationFrame"
  define w3 where "w3 = step w2 AnimationFrame"
  have f1: "s_options w1 = s_options w" "s_originClassNameList w1 = s_originClassNameList w"
    "listener w1 = listener w"
    by (simp_all add: w1_def image_fires_load_frame)
  have nc: "\<not> truthy_bool (s_canAnimate w1)"
    using image_fires_load_canAnimate(1,2) [OF assms(1,2)] assms(6)
    by (auto simp: w1_def truthy_js_and3)
  have q1: "frame_queue w1 = frame_queue w @ [Enter]"
    using image_fires_load_canAnimate(3) [OF assms(1,2)] nc assms(3,4,5) by (simp add: w1_def)
  have s2: "w2 = run_callback Enter (fold run_callback (frame_queue w) (w1\<lparr>frame_queue := []\<rparr>))"
    unfolding w2_def by (rule frame_ends_with [OF q1])
  have f2: "s_options w2 = s_options w" "s_originClassNameList w2 = s_originClassNameList w"
    "listener w2 = listener w"
    by (simp_all add: s2 f1)
  have c2: "attr_class (el w2) = Val (className w (o_animationClassName (s_options w) @ ''-enter''))"
    by (simp add: s2 run_callback_class f1 className_def)
  have q2: "frame_queue w2 =
      map (\<lambda>_. EnterActive) (filter (\<lambda>c. c = Enter) (frame_queue w)) @ [EnterActive]"
    by (simp add: s2 frame_queue_run_callback frame_queue_fold)
  have s3: "w3 = run_callback EnterActive
      (fold run_callback (map (\<lambda>_. EnterActive) (filter (\<lambda>c. c = Enter) (frame_queue w)))
        (w2\<lparr>frame_queue := []\<rparr>))"
    unfolding w3_def by (rule frame_ends_with [OF q2])
  have f3: "s_options w3 = s_options w" "s_originClassNameList w3 = s_originClassNameList w"
    "listener w3 = listener w"
    by (simp_all add: s3 f2)
  have c3: "attr_class (el w3) =
      Val (className w (o_animationClassName (s_options w) @ ''-enter-active''))"
    by (simp add: s3 run_callback_class f2 className_def)
  have c4: "attr_class (el (step w3 AnimationEnd)) =
      Val (className w (o_animationClassName (s_options w) @
             (if listener w then ''-enter-end'' else ''-enter-active'')))"
  proof (cases "listener w")
    case True
    then show ?thesis using f3 by (simp add: shell_defs className_def Let_def)
  next
    case False
    then show ?thesis using f3 c3 by simp
  qed
  show ?thesis
    using c2 c3 c4 by (simp add: w1_def w2_def w3_def)
qed

text \<open>
  The theorem at the example instance with the animation class after \<^verbatim>\<open>load('a.jpg')\<close>,
  where the handler is registered, and at the example instance whose first animation
  has ended and whose later load has failed, where it is not.
\<close>

theorem animation_classes_witness:
  "0 < length (images example_loading_fade) \<and> images example_loading_fade ! 0 = (''a.jpg'', True) \<and>
   s_currentSrc example_loading_fade = s_actualSrc example_loading_fade \<and>
   o_animate (s_options example_loading_fade) \<and>
   truthy_str (o_animationClassName (s_options example_loading_fade)) \<and>
   \<not> truthy_bool (s_loaded example_loading_fade) \<and>
   l_currentSrc (s_imageLoader example_loading_fade) \<notin> set (loadedImageList example_loading_fade) \<and>
   listener example_loading_fade \<and>
   attr_class (el (run example_loading_fade [ImageFires 0 ImageLoad, AnimationFrame])) =
     Val ''pic fade-enter'' \<and>
   attr_class (el (run example_loading_fade [ImageFires 0 ImageLoad, AnimationFrame, AnimationFrame])) =
     Val ''pic fade-enter-active'' \<and>
   attr_class (el (run example_loading_fade [ImageFires 0 ImageLoad, AnimationFrame, AnimationFrame,
     AnimationEnd])) = Val ''pic fade-enter-end'' \<and>
   0 < length (images example_after_failure) \<and>
   images example_after_failure ! 0 = (''b.jpg'', True) \<and>
   s_currentSrc example_after_failure = s_actualSrc example_after_failure \<and>
   o_animate (s_options example_after_failure) \<and>
   truthy_str (o_animationClassName (s_options example_after_failure)) \<and>
   \<not> truthy_bool (s_loaded example_after_failure) \<and>
   \<not> listener example_after_failure \<and>
   attr_class (el (run example_after_failure [ImageFires 0 ImageLoad, AnimationFrame])) =
     Val ''pic fade-enter'' \<and>
   attr_class (el (run example_after_failure [ImageFires 0 ImageLoad, AnimationFrame,
     AnimationFrame])) = Val ''pic fade-enter-active'' \<and>
   attr_class (el (run example_after_failure [ImageFires 0 ImageLoad, AnimationFrame,
     AnimationFrame, AnimationEnd])) = Val ''pic fade-enter-active''"
proof -
  have h1: "0 < length (images example_loading_fade)" by code_simp
  have h2: "images example_loading_fade ! 0 = (''a.jpg'', True)" by code_simp
  have h3: "s_currentSrc example_loading_fade = s_actualSrc example_loading_fade" by code_simp
  have h4: "o_animate (s_options example_loading_fade)" by code_simp
  have h5: "truthy_str (o_animationClassName (s_options example_loading_fade))" by code_simp
  have h6a: "\<not> truthy_bool (s_loaded example_loading_fade)" by code_simp
  have h6b: "l_currentSrc (s_imageLoader example_loading_fade) \<notin> set (loadedImageList example_loading_fade)"
    by code_simp
  have h7: "listener example_loading_fade" by code_simp
  note T = animation_classes [OF h1 h2 h3 h4 h5 disjI1 [OF h6a]]
  have n1: "className example_loading_fade (o_animationClassName (s_options example_loading_fade) @ ''-enter'') =
      ''pic fade-enter''" by code_simp
  have n2: "className example_loading_fade
      (o_animationClassName (s_options example_loading_fade) @ ''-enter-active'') =
      ''pic fade-enter-active''" by code_simp
  have n3: "className example_loading_fade
      (o_animationClassName (s_options example_loading_fade) @
         (if listener example_loading_fade then ''-enter-end'' else ''-enter-active'')) =
      ''pic fade-enter-end''" by code_simp
  note U = T [unfolded n1 n2 n3]
  have g1: "0 < length (images example_after_failure)" by code_simp
  have g2: "images example_after_failure ! 0 = (''b.jpg'', True)" by code_simp
  have g3: "s_currentSrc example_after_failure = s_actualSrc example_after_failure" by code_simp
  have g4: "o_animate (s_options example_after_failure)" by code_simp
  have g5: "truthy_str (o_animationClassName (s_options example_after_failure))" by code_simp
  have g6: "\<not> truthy_bool (s_loaded example_after_failure)" by code_simp
  have g7: "\<not> listener example_after_failure" by code_simp
  note T' = animation_classes [OF g1 g2 g3 g4 g5 disjI1 [OF g6]]
  have m1: "className example_after_failure
      (o_animationClassName (s_options example_after_failure) @ ''-enter'') =
      ''pic fade-enter''" by code_simp
  have m2: "className example_after_failure
      (o_animationClassName (s_options example_after_failure) @ ''-enter-active'') =
      ''pic fade-enter-active''" by code_simp
  have m3: "className example_after_failure
      (o_animationClassName (s_options example_after_failure) @
         (if listener example_after_failure then ''-enter-end'' else ''-enter-active'')) =
      ''pic fade-enter-active''" by code_simp
  note U' = T' [unfolded m3, unfolded m1 m2]
  have V: "0 < length (images example_after_failure) \<and>
   images example_after_failure ! 0 = (''b.jpg'', True) \<and>
   s_currentSrc example_after_failure = s_actualSrc example_after_failure \<and>
   o_animate (s_options example_after_failure) \<and>
   truthy_str (o_animationClassName (s_options example_after_failure)) \<and>
   \<not> truthy_bool (s_loaded example_after_failure) \<and>
   \<not> listener example_after_failure \<and>
   attr_class (el (run example_after_failure [ImageFires 0 ImageLoad, AnimationFrame])) =
     Val ''pic fade-enter'' \<and>
   attr_class (el (run example_after_failure [ImageFires 0 ImageLoad, AnimationFrame,
     AnimationFrame])) = Val ''pic fade-enter-active'' \<and>
   attr_class (el (run example_after_failure [ImageFires 0 ImageLoad, AnimationFrame,
     AnimationFrame, AnimationEnd])) = Val ''pic fade-enter-active''"
    by (rule conjI [OF g1 conjI [OF g2 conjI [OF g3 conjI [OF g4 conjI [OF g5
          conjI [OF g6 conjI [OF g7 U']]]]]]])
  show ?thesis
    by (rule conjI [OF h1 conjI [OF h2 conjI [OF h3 conjI [OF h4 conjI [OF h5
          conjI [OF h6a conjI [OF h6b conjI [OF h7
          conjI [OF U [THEN conjunct1] conjI [OF U [THEN conjunct2, THEN conjunct1]
          conjI [OF U [THEN conjunct2, THEN conjunct2] V]]]]]]]]]]])
qed

text \<open>
  Claim C4 as stated fails at the example instance whose first animation has ended
  and whose later load has failed: \<^verbatim>\<open>_loaded\<close> is false, \<^verbatim>\<open>load('b.jpg')\<close> resolves (with
  the loader's \<^verbatim>\<open>$loaded\<close> false as well), the two frames set \<^verbatim>\<open>fade-enter\<close> and
  \<^verbatim>\<open>fade-enter-active\<close>, but the handler is no longer registered, and the animation-end
  event leaves the class at \<^verbatim>\<open>fade-enter-active\<close>.
\<close>

theorem animation_end_unbound_counterexample:
  "images example_after_failure ! 0 = (''b.jpg'', True) \<and>
   s_currentSrc example_after_failure = s_actualSrc example_after_failure \<and>
   o_animate (s_options example_after_failure) \<and>
   truthy_str (o_animationClassName (s_options example_after_failure)) \<and>
   s_loaded example_after_failure = Val False \<and>
   l_loaded (s_imageLoader (step example_after_failure (ImageFires 0 ImageLoad))) = Val False \<and>
   \<not> listener example_after_failure \<and>
   attr_class (el (run example_after_failure [ImageFires 0 ImageLoad, AnimationFrame])) =
     Val ''pic fade-enter'' \<and>
   attr_class (el (run example_after_failure
     [ImageFires 0 ImageLoad, AnimationFrame, AnimationFrame])) = Val ''pic fade-enter-active'' \<and>
   attr_class (el (run example_after_failure
     [ImageFires 0 ImageLoad, AnimationFrame, AnimationFrame, AnimationEnd])) =
     Val ''pic fade-enter-active''"
  by code_simp


lemma run_callback_wrapper [simp]:
  "timer (run_callback cb w) = timer w"
  "created (run_callback cb w) = created w"
  "removed (run_callback cb w) = removed w"
  "containers (run_callback cb w) = containers w"
  "s_parentNode (run_callback cb w) = s_parentNode w"
  "s_placeholderNode (run_callback cb w) = s_placeholderNode w"
  by (cases cb; simp add: shell_defs run_callback.simps)+

lemma fold_run_callback_wrapper [simp]:
  "timer (fold run_callback q w) = timer w"
  "created (fold run_callback q w) = created w"
  "removed (fold run_callback q w) = removed w"
  "containers (fold run_callback q w) = containers w"
  "s_parentNode (fold run_callback q w) = s_parentNode w"
  "s_placeholderNode (fold run_callback q w) = s_placeholderNode w"
  by (induction q arbitrary: w) simp_all

lemma wrapper_inv_construct: "wrapper_inv (construct opts L)"
  by (simp add: wrapper_inv_def construct_def setAnimationEndHandler_def setClientSize_def
      addAnimationEnd_def Let_def)

lemma image_fires_timer:
  "k < length (images w) \<Longrightarrow> timer (image_fires k ev w) = None"
  by (simp add: image_fires_def shell_defs Let_def split: prod.splits image_event.splits)

lemma image_fires_created: "created (image_fires k ev w) = created w"
  by (simp add: image_fires_def shell_defs Let_def split: prod.splits image_event.splits)

lemma image_fires_removed:
  "k < length (images w) \<Longrightarrow>
   removed (image_fires k ev w) = (if removable w then removed w + 1 else removed w)"
  by (simp add: image_fires_def shell_defs removable_def Let_def
      split: prod.splits image_event.splits)

lemma image_fires_containers:
  "k < length (images w) \<Longrightarrow>
   containers (image_fires k ev w) = (if removable w then containers w - 1 else containers w)"
  by (simp add: image_fires_def shell_defs removable_def Let_def
      split: prod.splits image_event.splits)

lemma image_fires_parentNode:
  "k < length (images w) \<Longrightarrow>
   s_parentNode (image_fires k ev w) = (if removable w then Null else s_parentNode w)"
  by (simp add: image_fires_def shell_defs removable_def Let_def
      split: prod.splits image_event.splits)

lemma image_fires_placeholderNode:
  "k < length (images w) \<Longrightarrow>
   s_placeholderNode (image_fires k ev w) = (if removable w then Null else s_placeholderNode w)"
  by (simp add: image_fires_def shell_defs removable_def Let_def
      split: prod.splits image_event.splits)

lemma image_fires_animationing: "s_animationing (image_fires k ev w) = s_animationing w"
  by (simp add: image_fires_def shell_defs Let_def split: prod.splits image_event.splits)

lemma image_fires_disabled: "\<not> k < length (images w) \<Longrightarrow> image_fires k ev w = w"
  by (simp add: image_fires_def)

lemma animationEndHandler_fields:
  "timer (animationEndHandler w) = timer w"
  "created (animationEndHandler w) = created w"
  "frame_queue (animationEndHandler w) = frame_queue w"
  "s_animationing (animationEndHandler w) = Val False"
  "removed (animationEndHandler w) =
     (if truthy_obj (s_parentNode w) \<and> truthy_obj (s_placeholderNode w)
      then removed w + 1 else removed w)"
  "containers (animationEndHandler w) =
     (if truthy_obj (s_parentNode w) \<and> truthy_obj (s_placeholderNode w)
      then containers w - 1 else containers w)"
  "s_parentNode (animationEndHandler w) =
     (if truthy_obj (s_parentNode w) \<and> truthy_obj (s_placeholderNode w)
      then Null else s_parentNode w)"
  "s_placeholderNode (animationEndHandler w) =
     (if truthy_obj (s_parentNode w) \<and> truthy_obj (s_placeholderNode w)
      then Null else s_placeholderNode w)"
  by (simp_all add: shell_defs Let_def)

lemma wrapper_inv_Load: "wrapper_inv w \<Longrightarrow> wrapper_inv (step w (Load src))"
  by (simp add: wrapper_inv_def shell_defs)

lemma wrapper_inv_ImageFires:
  assumes i: "wrapper_inv w"
  shows "wrapper_inv (step w (ImageFires k ev))"
proof (cases "k < length (images w)")
  case False
  then show ?thesis using i by (simp add: image_fires_disabled)
next
  case True
  note F = image_fires_timer [OF True] image_fires_created image_fires_removed [OF True]
    image_fires_containers [OF True] image_fires_parentNode [OF True]
    image_fires_placeholderNode [OF True]
  show ?thesis
  proof (cases "removable w")
    case r: True
    with i have "containers w = 1" by (simp add: wrapper_inv_def removable_def)
    with i r show ?thesis by (simp add: wrapper_inv_def F)
  next
    case r: False
    with i have "containers w \<noteq> 1" by (auto simp: wrapper_inv_def removable_def)
    with i r show ?thesis by (simp add: wrapper_inv_def F)
  qed
qed

lemma wrapper_inv_Timeout:
  assumes i: "wrapper_inv w"
  shows "wrapper_inv (step w Timeout)"
proof (cases "timer w")
  case None
  then show ?thesis using i by simp
next
  case (Some d)
  with i have "created w = 0" "containers w = 0" "removed w = 0"
    "frame_queue w = []" "\<not> truthy_bool (s_animationing w)"
    by (simp_all add: wrapper_inv_def)
  with Some show ?thesis by (simp add: wrapper_inv_def createContainerDom_def)
qed

lemma wrapper_inv_AnimationFrame:
  assumes i: "wrapper_inv w"
  shows "wrapper_inv (step w AnimationFrame)"
proof (cases "frame_queue w = []")
  case True
  with i show ?thesis by (simp add: wrapper_inv_def)
next
  case False
  with i have "timer w = None" and "containers w \<noteq> 1"
    by (auto simp: wrapper_inv_def)
  with i show ?thesis by (simp add: wrapper_inv_def)
qed

lemma wrapper_inv_AnimationEnd:
  assumes i: "wrapper_inv w"
  shows "wrapper_inv (step w AnimationEnd)"
proof (cases "listener w")
  case False
  then show ?thesis using i by simp
next
  case True
  show ?thesis
  proof (cases "containers w = 1")
    case c: True
    with i True show ?thesis by (simp add: wrapper_inv_def animationEndHandler_fields)
  next
    case c: False
    with i True show ?thesis by (simp add: wrapper_inv_def animationEndHandler_fields)
  qed
qed

lemma wrapper_inv_step: "wrapper_inv w \<Longrightarrow> wrapper_inv (step w e)"
  by (cases e)
    (simp_all only: wrapper_inv_Load wrapper_inv_ImageFires wrapper_inv_Timeout
      wrapper_inv_AnimationFrame wrapper_inv_AnimationEnd)

lemma wrapper_inv_run: "wrapper_inv w \<Longrightarrow> wrapper_inv (run w evs)"
  by (induction evs arbitrary: w) (simp_all add: wrapper_inv_step)

lemma wrapper_inv_reachable: "wrapper_inv (run (construct opts L) evs)"
  by (rule wrapper_inv_run [OF wrapper_inv_construct])












lemma step_timer_None:
  assumes "timer w = None"
  shows "timer (step w e) = None \<and> created (step w e) = created w"
proof (cases e)
  case (Load src)
  with assms show ?thesis by (simp add: shell_defs)
next
  case (ImageFires k ev)
  with assms show ?thesis
    by (cases "k < length (images w)")
      (simp_all add: image_fires_timer image_fires_created image_fires_disabled)
next
  case Timeout
  with assms show ?thesis by simp
next
  case AnimationFrame
  with assms show ?thesis by simp
next
  case AnimationEnd
  with assms show ?thesis by (simp add: animationEndHandler_fields)
qed

lemma run_timer_None:
  "timer w = None \<Longrightarrow> timer (run w evs) = None \<and> created (run w evs) = created w"
proof (induction evs arbitrary: w)
  case Nil
  then show ?case by simp
next
  case (Cons e evs)
  from step_timer_None [OF Cons.prems, of e] Cons.IH [of "step w e"] show ?case by simp
qed

lemma step_timer_kept: "timer (step w e) = None \<or> timer (step w e) = timer w"
proof (cases e)
  case (Load src)
  then show ?thesis by (simp add: shell_defs)
next
  case (ImageFires k ev)
  then show ?thesis
    by (cases "k < length (images w)") (simp_all add: image_fires_timer image_fires_disabled)
next
  case Timeout
  then show ?thesis by (simp add: createContainerDom_def split: option.splits)
next
  case AnimationFrame
  then show ?thesis by simp
next
  case AnimationEnd
  then show ?thesis by (simp add: animationEndHandler_fields)
qed

lemma run_timer_kept: "timer (run w evs) = None \<or> timer (run w evs) = timer w"
proof (induction evs arbitrary: w)
  case Nil
  then show ?case by simp
next
  case (Cons e evs)
  from step_timer_kept [of w e] Cons.IH [of "step w e"] show ?case by auto
qed

lemma step_created_no_Timeout:
  assumes "e \<noteq> Timeout"
  shows "created (step w e) = created w"
proof (cases e)
  case (Load src)
  then show ?thesis by (simp add: ImageElementShell_load_def imageLoader_load_def)
next
  case (ImageFires k ev)
  then show ?thesis by (simp add: image_fires_created)
next
  case Timeout
  with assms show ?thesis by simp
next
  case AnimationFrame
  then show ?thesis by simp
next
  case AnimationEnd
  then show ?thesis by (simp add: animationEndHandler_fields)
qed

lemma run_created_no_Timeout: "Timeout \<notin> set evs \<Longrightarrow> created (run w evs) = created w"
proof (induction evs arbitrary: w)
  case Nil
  then show ?case by simp
next
  case (Cons e evs)
  then have "e \<noteq> Timeout" and "Timeout \<notin> set evs" by auto
  with Cons.IH [of "step w e"] show ?case by (simp add: step_created_no_Timeout)
qed

lemma construct_timer:
  "timer (construct opts L) =
     (if isEmpty (o_originSrc opts) \<and> \<not> isEmpty (o_loadingPlaceholder opts)
      then Some (o_loadingDelay opts) else None)"
  "created (construct opts L) = 0"
  by (simp_all add: construct_def setAnimationEndHandler_def setClientSize_def
      addAnimationEnd_def Let_def)

lemma step_Timeout_creates:
  assumes i: "wrapper_inv w" and t: "timer w \<noteq> None"
  shows "created w = 0 \<and> created (step w Timeout) = 1 \<and> containers (step w Timeout) = 1 \<and>
         truthy_obj (s_parentNode (step w Timeout))"
proof -
  from i t have "created w = 0" "containers w = 0" by (simp_all add: wrapper_inv_def)
  with t show ?thesis by (auto simp: createContainerDom_def)
qed

lemma resolved_before_timer:
  assumes n: "Timeout \<notin> set evs" and k: "k < length (images (run w evs))"
  shows "timer (run w (evs @ [ImageFires k ev])) = None \<and>
         (\<forall>evs2. created (run w (evs @ ImageFires k ev # evs2)) = created w)"
proof -
  have t: "timer (step (run w evs) (ImageFires k ev)) = None"
    using k by (simp add: image_fires_timer)
  have c: "created (step (run w evs) (ImageFires k ev)) = created w"
    using n by (simp add: image_fires_created run_created_no_Timeout)
  have "created (run (step (run w evs) (ImageFires k ev)) evs2) = created w" for evs2
    using run_timer_None [OF t, of evs2] c by simp
  with t show ?thesis by (simp add: run_append)
qed

text \<open>
  Claim C5. A shell constructed with an empty \<^verbatim>\<open>originSrc\<close> and a \<^verbatim>\<open>loadingPlaceholder\<close>
  that is not empty has a pending timeout of \<^verbatim>\<open>loadingDelay\<close>, which keeps this delay
  while it is pending; when it expires the wrapper is created; and when an image of
  the loader fires (load or error) before it expires, the timeout is cancelled and no
  wrapper is ever created. A shell constructed otherwise never has a pending timeout
  and never a wrapper.
\<close>

theorem loading_timer:
  "(isEmpty (o_originSrc opts) \<and> \<not> isEmpty (o_loadingPlaceholder opts) \<longrightarrow>
      timer (construct opts L) = Some (o_loadingDelay opts) \<and>
      (timer (run (construct opts L) evs) = None \<or>
       timer (run (construct opts L) evs) = Some (o_loadingDelay opts)) \<and>
      (timer (run (construct opts L) evs) \<noteq> None \<longrightarrow>
         created (run (construct opts L) evs) = 0 \<and>
         created (step (run (construct opts L) evs) Timeout) = 1 \<and>
         containers (step (run (construct opts L) evs) Timeout) = 1 \<and>
         truthy_obj (s_parentNode (step (run (construct opts L) evs) Timeout))) \<and>
      (Timeout \<notin> set evs \<and> k < length (images (run (construct opts L) evs)) \<longrightarrow>
         timer (run (construct opts L) (evs @ [ImageFires k ev])) = None \<and>
         (\<forall>evs2. created (run (construct opts L) (evs @ ImageFires k ev # evs2)) = 0))) \<and>
   (\<not> (isEmpty (o_originSrc opts) \<and> \<not> isEmpty (o_loadingPlaceholder opts)) \<longrightarrow>
      timer (construct opts L) = None \<and>
      timer (run (construct opts L) evs) = None \<and>
      created (run (construct opts L) evs) = 0)"
proof (cases "isEmpty (o_originSrc opts) \<and> \<not> isEmpty (o_loadingPlaceholder opts)")
  case True
  then have t0: "timer (construct opts L) = Some (o_loadingDelay opts)"
    by (simp add: construct_timer)
  have a: "timer (run (construct opts L) evs) = None \<or>
       timer (run (construct opts L) evs) = Some (o_loadingDelay opts)"
    using run_timer_kept [of "construct opts L" evs] t0 by simp
  have b: "timer (run (construct opts L) evs) \<noteq> None \<longrightarrow>
         created (run (construct opts L) evs) = 0 \<and>
         created (step (run (construct opts L) evs) Timeout) = 1 \<and>
         containers (step (run (construct opts L) evs) Timeout) = 1 \<and>
         truthy_obj (s_parentNode (step (run (construct opts L) evs) Timeout))"
    using step_Timeout_creates [OF wrapper_inv_reachable] by blast
  have c: "Timeout \<notin> set evs \<and> k < length (images (run (construct opts L) evs)) \<longrightarrow>
         timer (run (construct opts L) (evs @ [ImageFires k ev])) = None \<and>
         (\<forall>evs2. created (run (construct opts L) (evs @ ImageFires k ev # evs2)) = 0)"
    using resolved_before_timer [of evs k "construct opts L" ev]
    by (simp add: construct_timer)
  from True t0 a b c show ?thesis by blast
next
  case False
  then have t0: "timer (construct opts L) = None"
    by (simp add: construct_timer)
  from run_timer_None [OF t0, of evs] have
    "timer (run (construct opts L) evs) = None \<and> created (run (construct opts L) evs) = 0"
    by (simp add: construct_timer)
  with False t0 show ?thesis by blast
qed

text \<open>The theorem at the two example options.\<close>

theorem loading_timer_witness:
  "isEmpty (o_originSrc example_options) \<and> \<not> isEmpty (o_loadingPlaceholder example_options) \<and>
   o_loadingDelay example_options = 300 \<and>
   timer (construct example_options []) = Some (o_loadingDelay example_options) \<and>
   timer (run (construct example_options []) [Load ''a.jpg'']) \<noteq> None \<and>
   created (step (run (construct example_options []) [Load ''a.jpg'']) Timeout) = 1 \<and>
   Timeout \<notin> set [Load ''a.jpg''] \<and>
   0 < length (images (run (construct example_options []) [Load ''a.jpg''])) \<and>
   timer (run (construct example_options []) ([Load ''a.jpg''] @ [ImageFires 0 ImageLoad])) = None \<and>
   created (run (construct example_options [])
     ([Load ''a.jpg''] @ ImageFires 0 ImageLoad # [Timeout, AnimationFrame])) = 0 \<and>
   \<not> (isEmpty (o_originSrc example_options_inline) \<and>
      \<not> isEmpty (o_loadingPlaceholder example_options_inline)) \<and>
   timer (run (construct example_options_inline []) [Load ''a.jpg'', Timeout]) = None \<and>
   created (run (construct example_options_inline []) [Load ''a.jpg'', Timeout]) = 0"
proof -
  have h: "isEmpty (o_originSrc example_options) \<and> \<not> isEmpty (o_loadingPlaceholder example_options)"
    by code_simp
  have d: "o_loadingDelay example_options = 300" by code_simp
  have t: "timer (run (construct example_options []) [Load ''a.jpg'']) \<noteq> None" by code_simp
  have n: "Timeout \<notin> set [Load ''a.jpg'']" by simp
  have k: "0 < length (images (run (construct example_options []) [Load ''a.jpg'']))" by code_simp
  have h2: "\<not> (isEmpty (o_originSrc example_options_inline) \<and>
      \<not> isEmpty (o_loadingPlaceholder example_options_inline))"
    by code_simp
  note A = loading_timer [where opts = example_options and L = "[]" and evs = "[Load ''a.jpg'']"
      and k = 0 and ev = ImageLoad, THEN conjunct1, THEN mp, OF h]
  note B = loading_timer [where opts = example_options_inline and L = "[]"
      and evs = "[Load ''a.jpg'', Timeout]" and k = 0 and ev = ImageLoad,
      THEN conjunct2, THEN mp, OF h2]
  note w1 = A [THEN conjunct1]
  note w2 = A [THEN conjunct2, THEN conjunct2, THEN conjunct1, THEN mp, OF t,
      THEN conjunct2, THEN conjunct1]
  note C = A [THEN conjunct2, THEN conjunct2, THEN conjunct2, THEN mp, OF conjI [OF n k]]
  note w3 = C [THEN conjunct1]
  note w4 = C [THEN conjunct2, THEN spec, of "[Timeout, AnimationFrame]"]
  note w5 = B [THEN conjunct2, THEN conjunct1]
  note w6 = B [THEN conjunct2, THEN conjunct2]
  show ?thesis
    by (rule conjI [OF h [THEN conjunct1] conjI [OF h [THEN conjunct2] conjI [OF d conjI [OF w1
          conjI [OF t conjI [OF w2 conjI [OF n conjI [OF k conjI [OF w3 conjI [OF w4
          conjI [OF h2 conjI [OF w5 w6]]]]]]]]]]]])
qed


end
